theory Spec2Isabelle
  imports Main
begin

section \<open>Calendar\<close>

text \<open>
  A \<^verbatim>\<open>datetime.date\<close> is represented by its proleptic Gregorian ordinal
  (\<^verbatim>\<open>date.toordinal()\<close>: 0001-01-01 is day 1), so comparison of dates is comparison of
  integers, \<^verbatim>\<open>d + timedelta(days=k)\<close> is \<open>d + k\<close> and \<^verbatim>\<open>(e - d).days\<close> is \<open>e - d\<close>.
  The upper end of the representable range (\<^verbatim>\<open>date.max\<close>, 9999-12-31), where adding a
  \<^verbatim>\<open>timedelta\<close> raises \<^verbatim>\<open>OverflowError\<close>, is not part of the model.
\<close>

type_synonym date = int

text \<open>\<^verbatim>\<open>date.weekday()\<close>: Monday is 0, Sunday is 6.\<close>

definition weekday :: "date \<Rightarrow> int" where
  "weekday d = (d + 6) mod 7"

text \<open>
  The day-of-week code used for weekend sets, \<^verbatim>\<open>(d.weekday() + 1) % 7\<close>:
  Sunday is 0, Saturday is 6.
\<close>

definition weekend_code :: "date \<Rightarrow> int" where
  "weekend_code d = (weekday d + 1) mod 7"

subsection \<open>\<^verbatim>\<open>records/utils.py\<close>: \<^verbatim>\<open>count_school_days\<close>\<close>

text \<open>
  The \<^verbatim>\<open>while current <= end_date\<close> loop, with the running counter \<open>school_days\<close>
  as an accumulator.
\<close>

function count_school_days_loop ::
  "date \<Rightarrow> date \<Rightarrow> int list \<Rightarrow> date set \<Rightarrow> int \<Rightarrow> int" where
  "count_school_days_loop current end_date weekend_days holidays school_days =
     (if current \<le> end_date then
        (let is_weekend_day = ((weekday current + 1) mod 7 \<in> set weekend_days);
             is_holiday = (current \<in> holidays);
             school_days' = (if \<not> is_weekend_day \<and> \<not> is_holiday
                             then school_days + 1 else school_days)
         in count_school_days_loop (current + 1) end_date weekend_days holidays school_days')
      else school_days)"
  by pat_completeness auto
termination
  by (relation "measure (\<lambda>(current, end_date, _, _, _). nat (end_date + 1 - current))") auto

definition count_school_days :: "date \<Rightarrow> date \<Rightarrow> int list \<Rightarrow> date set \<Rightarrow> int" where
  "count_school_days start_date end_date weekend_days holidays =
     count_school_days_loop start_date end_date weekend_days holidays 0"

subsection \<open>\<^verbatim>\<open>records/utils.py\<close>: \<^verbatim>\<open>parse_weekend_days\<close> and \<^verbatim>\<open>is_weekend\<close>\<close>

text \<open>
  \<^verbatim>\<open>ClassRoom.weekend_days\<close> is a \<^verbatim>\<open>JSONField\<close>: the stored value is a JSON value. The
  REST serializer stores a list of integers, the admin form stores the text of such a list
  (\<^verbatim>\<open>json.dumps(sorted(data))\<close>). Arrays are arrays of integer day codes (the declared
  \<^verbatim>\<open>List[int]\<close>); JSON objects and floats are not represented.
\<close>

datatype json_value = JNull | JBool bool | JInt int | JStr string | JList "int list"

text \<open>Python truthiness, as tested by \<^verbatim>\<open>if not weekend_data\<close>.\<close>

fun truthy :: "json_value \<Rightarrow> bool" where
  "truthy JNull = False"
| "truthy (JBool b) = b"
| "truthy (JInt n) = (n \<noteq> 0)"
| "truthy (JStr s) = (s \<noteq> [])"
| "truthy (JList xs) = (xs \<noteq> [])"

text \<open>\<^verbatim>\<open>weekend_data if isinstance(weekend_data, list) else [0, 6]\<close>\<close>

fun list_or_default :: "json_value \<Rightarrow> int list" where
  "list_or_default (JList xs) = xs"
| "list_or_default _ = [0, 6]"

text \<open>
  \<^verbatim>\<open>json.loads\<close> is a parameter: \<open>None\<close> stands for \<^verbatim>\<open>json.JSONDecodeError\<close>.
\<close>

definition parse_weekend_days :: "(string \<Rightarrow> json_value option) \<Rightarrow> json_value \<Rightarrow> int list" where
  "parse_weekend_days json_loads weekend_data =
     (if \<not> truthy weekend_data then [0, 6]
      else case weekend_data of
             JStr s \<Rightarrow> (case json_loads s of
                          None \<Rightarrow> [0, 6]
                        | Some parsed \<Rightarrow> list_or_default parsed)
           | _ \<Rightarrow> list_or_default weekend_data)"

section \<open>Data model (\<^verbatim>\<open>records/models.py\<close>)\<close>

text \<open>
  Model instances are records of the columns the functions below read; a foreign key is
  the key of the row it points to. Tables are lists of rows.
\<close>

record academic_year =
  academic_year_id :: int
  academic_year_school :: int

record classroom =
  classroom_id :: int
  classroom_name :: string
  classroom_school :: int
  classroom_academic_year :: int
  classroom_start_date :: "date option"
  classroom_end_date :: "date option"
  classroom_weekend_days :: json_value

record student =
  student_id :: int
  student_roll_number :: int
  student_classroom :: "int option"

record attendance =
  attendance_student_id :: "int option"
  attendance_date :: date
  attendance_present :: bool
  attendance_year :: int

record holiday =
  holiday_year :: int
  holiday_date :: date

record database =
  classrooms :: "classroom list"
  students :: "student list"
  attendances :: "attendance list"
  holidays_table :: "holiday list"

text \<open>
  The collaborators of the standard library and the clock: \<^verbatim>\<open>json.loads\<close>,
  \<^verbatim>\<open>datetime.strptime(s, '%Y-%m-%d').date()\<close> (\<open>None\<close> for \<^verbatim>\<open>ValueError\<close>) and
  \<^verbatim>\<open>datetime.now().date()\<close>.
\<close>

record env =
  json_loads :: "string \<Rightarrow> json_value option"
  strptime :: "string \<Rightarrow> date option"
  today_now :: date

text \<open>\<^verbatim>\<open>is_weekend(date_obj, classroom)\<close>; the classroom may be \<^verbatim>\<open>None\<close>.\<close>

definition is_weekend :: "env \<Rightarrow> date \<Rightarrow> classroom option \<Rightarrow> bool" where
  "is_weekend env date_obj classroom =
     (let weekend_days = parse_weekend_days (json_loads env)
                           (case classroom of
                              Some c \<Rightarrow> classroom_weekend_days c
                            | None \<Rightarrow> JNull);
          iso_weekday = (weekday date_obj + 1) mod 7
      in iso_weekday \<in> set weekend_days)"


subsection \<open>The year of a date\<close>

text \<open>
  \<^verbatim>\<open>today.replace(month=1, day=1)\<close> is the first of January of the year of \<open>today\<close>. The
  year of an ordinal and the ordinal of a first of January follow CPython's
  \<^verbatim>\<open>_ord2ymd\<close> and \<^verbatim>\<open>_days_before_year\<close>.
\<close>

definition days_before_year :: "int \<Rightarrow> int" where
  "days_before_year year =
     (let y = year - 1 in y * 365 + y div 4 - y div 100 + y div 400)"

definition year_of :: "date \<Rightarrow> int" where
  "year_of d =
     (let n = d - 1;
          n400 = n div 146097; n = n mod 146097;
          n100 = n div 36524; n = n mod 36524;
          n4 = n div 1461; n = n mod 1461;
          n1 = n div 365;
          year = n400 * 400 + 1 + n100 * 100 + n4 * 4 + n1
      in if n1 = 4 \<or> n100 = 4 then year - 1 else year)"

definition replace_month1_day1 :: "date \<Rightarrow> date" where
  "replace_month1_day1 d = days_before_year (year_of d) + 1"

section \<open>Attendance statistics (\<^verbatim>\<open>records/services.py\<close>)\<close>

text \<open>
  The dictionary returned by \<^verbatim>\<open>get_classroom_stats\<close>. The dates are kept as dates
  (the source renders them with \<^verbatim>\<open>isoformat\<close>); \<^verbatim>\<open>attendance_percentage\<close>, a rounded
  float, is left out.
\<close>

record classroom_stats =
  stats_classroom_id :: int
  stats_classroom_name :: string
  student_count :: int
  attendance_records :: int
  present_count :: int
  expected_records :: int
  pending_records :: int
  is_completed :: bool
  stats_start_date :: date
  stats_end_date :: date

text \<open>\<^verbatim>\<open>Student.objects.filter(classroom=classroom).values_list('id', flat=True)\<close>\<close>

definition classroom_student_ids :: "database \<Rightarrow> classroom \<Rightarrow> int list" where
  "classroom_student_ids db classroom =
     map student_id
       (filter (\<lambda>s. student_classroom s = Some (classroom_id classroom)) (students db))"

text \<open>The date range of the statistics: the classroom's own dates, or the year so far.\<close>

definition stats_date_range :: "classroom \<Rightarrow> date \<Rightarrow> date \<times> date" where
  "stats_date_range classroom today =
     (case (classroom_start_date classroom, classroom_end_date classroom) of
        (Some s, Some e) \<Rightarrow> (s, min e today)
      | _ \<Rightarrow> (replace_month1_day1 today, today))"

text \<open>
  \<^verbatim>\<open>Attendance.objects.filter(student_id__in=student_ids, date__range=[start_date,
  end_date], year_id=year.id)\<close>
\<close>

definition stats_attendance_rows ::
  "database \<Rightarrow> int list \<Rightarrow> date \<Rightarrow> date \<Rightarrow> academic_year \<Rightarrow> attendance list" where
  "stats_attendance_rows db student_ids start_date end_date year =
     filter (\<lambda>a. attendance_student_id a \<in> Some ` set student_ids
                \<and> start_date \<le> attendance_date a \<and> attendance_date a \<le> end_date
                \<and> attendance_year a = academic_year_id year)
       (attendances db)"

definition get_classroom_stats ::
  "env \<Rightarrow> database \<Rightarrow> classroom \<Rightarrow> academic_year \<Rightarrow> date set \<Rightarrow> date
     \<Rightarrow> classroom_stats option" where
  "get_classroom_stats env db classroom year holidays today =
     (let student_ids = classroom_student_ids db classroom;
          n_students = int (length student_ids)
      in if n_students = 0 then None
         else
           (let (start_date, end_date) = stats_date_range classroom today;
                weekend_days = parse_weekend_days (json_loads env)
                                 (classroom_weekend_days classroom);
                expected_days = count_school_days start_date end_date weekend_days holidays;
                expected = expected_days * n_students;
                rows = stats_attendance_rows db student_ids start_date end_date year;
                present = int (length (filter attendance_present rows));
                total_attendance = int (length rows);
                pending = max 0 (expected - total_attendance);
                completed = (pending \<le> 0)
            in Some \<lparr> stats_classroom_id = classroom_id classroom,
                      stats_classroom_name = classroom_name classroom,
                      student_count = n_students,
                      attendance_records = total_attendance,
                      present_count = present,
                      expected_records = expected,
                      pending_records = pending,
                      is_completed = completed,
                      stats_start_date = start_date,
                      stats_end_date = end_date \<rparr>))"

section \<open>Attendance validation (\<^verbatim>\<open>records/attendance_handler.py\<close>)\<close>

text \<open>
  A submitted record is a dictionary read with \<^verbatim>\<open>record.get\<close>: each of the three keys
  may be missing or null.
\<close>

record attendance_record =
  record_student_id :: "int option"
  record_date :: "string option"
  record_present :: "bool option"

text \<open>
  The error messages are formatted strings; each constructor stands for one message and
  carries the values the message is formatted from, the record's index first:
  \<^verbatim>\<open>Record {idx}: Missing student_id or date\<close>,
  \<^verbatim>\<open>Record {idx}: Invalid student_id {student_id}\<close>,
  \<^verbatim>\<open>Record {idx}: Invalid date format {date_str}\<close>,
  \<^verbatim>\<open>Record {idx}: Cannot mark attendance for future date ({date_str}). Today is {today}\<close>,
  \<^verbatim>\<open>Record {idx}: Cannot mark on weekend ({date_str})\<close>,
  \<^verbatim>\<open>Record {idx}: Cannot mark on holiday ({date_str})\<close>,
  \<^verbatim>\<open>No attendance records provided\<close> and \<^verbatim>\<open>Database error: ...\<close>.
\<close>

datatype error_message =
    MissingStudentOrDate nat
  | InvalidStudentId nat int
  | InvalidDateFormat nat string
  | FutureDate nat string date
  | OnWeekend nat string
  | OnHoliday nat string
  | NoRecordsProvided
  | DatabaseError

datatype py_exception = TypeError | ValueError

text \<open>
  \<^verbatim>\<open>Student.objects.filter(id__in=student_ids, classroom__school=school)
  .select_related('classroom')\<close> collected into the dictionary
  \<^verbatim>\<open>{s.id: s for s in students}\<close>: a later row replaces an earlier one of the same key.
  Each student comes with its classroom.
\<close>

definition valid_students_of ::
  "database \<Rightarrow> int \<Rightarrow> attendance_record list \<Rightarrow> (int \<rightharpoonup> student \<times> classroom)" where
  "valid_students_of db school records =
     (let student_ids = map record_student_id records;
          rows = concat
            (map (\<lambda>s. map (\<lambda>c. (student_id s, (s, c)))
                         (filter (\<lambda>c. student_classroom s = Some (classroom_id c)
                                      \<and> classroom_school c = school)
                            (classrooms db)))
               (filter (\<lambda>s. Some (student_id s) \<in> set student_ids) (students db)))
      in map_of (rev rows))"

text \<open>\<^verbatim>\<open>not student_id\<close> and \<^verbatim>\<open>not date_str\<close>: null, zero and the empty string are falsy.\<close>

definition not_student_id :: "int option \<Rightarrow> bool" where
  "not_student_id v = (case v of None \<Rightarrow> True | Some n \<Rightarrow> n = 0)"

definition not_date_str :: "string option \<Rightarrow> bool" where
  "not_date_str v = (case v of None \<Rightarrow> True | Some s \<Rightarrow> s = [])"

text \<open>\<^verbatim>\<open>AttendanceHandler._validate_single_record\<close>\<close>

definition validate_single_record ::
  "env \<Rightarrow> nat \<Rightarrow> attendance_record \<Rightarrow> (int \<rightharpoonup> student \<times> classroom) \<Rightarrow> date set
     \<Rightarrow> academic_year \<Rightarrow> error_message option" where
  "validate_single_record env idx record valid_students holidays year =
     (if not_student_id (record_student_id record) \<or> not_date_str (record_date record)
      then Some (MissingStudentOrDate idx)
      else
        (let student_id = the (record_student_id record);
             date_str = the (record_date record)
         in case valid_students student_id of
              None \<Rightarrow> Some (InvalidStudentId idx student_id)
            | Some (student, room) \<Rightarrow>
                (case strptime env date_str of
                   None \<Rightarrow> Some (InvalidDateFormat idx date_str)
                 | Some date_obj \<Rightarrow>
                     if date_obj > today_now env
                       then Some (FutureDate idx date_str (today_now env))
                     else if is_weekend env date_obj (Some room)
                       then Some (OnWeekend idx date_str)
                     else if date_obj \<in> holidays
                       then Some (OnHoliday idx date_str)
                     else None)))"

text \<open>
  \<^verbatim>\<open>AttendanceHandler._create_attendance_object\<close>. It parses the date again:
  \<^verbatim>\<open>strptime\<close> raises \<^verbatim>\<open>TypeError\<close> on a null date and \<^verbatim>\<open>ValueError\<close> on a
  malformed one.
\<close>

definition create_attendance_object ::
  "env \<Rightarrow> attendance_record \<Rightarrow> academic_year \<Rightarrow> (int \<rightharpoonup> student \<times> classroom)
     \<Rightarrow> py_exception + attendance option" where
  "create_attendance_object env record year valid_students =
     (case record_present record of
        None \<Rightarrow> Inr None
      | Some present \<Rightarrow>
          (case record_date record of
             None \<Rightarrow> Inl TypeError
           | Some date_str \<Rightarrow>
               (case strptime env date_str of
                  None \<Rightarrow> Inl ValueError
                | Some date_obj \<Rightarrow>
                    Inr (Some \<lparr> attendance_student_id = record_student_id record,
                                 attendance_date = date_obj,
                                 attendance_present = present,
                                 attendance_year = academic_year_id year \<rparr>))))"

text \<open>
  The loop \<^verbatim>\<open>for idx, record in enumerate(records)\<close> of
  \<^verbatim>\<open>validate_and_prepare_records\<close>, with the two lists it appends to.
\<close>

fun validate_records_loop ::
  "env \<Rightarrow> (int \<rightharpoonup> student \<times> classroom) \<Rightarrow> date set \<Rightarrow> academic_year \<Rightarrow> nat
     \<Rightarrow> attendance_record list \<Rightarrow> attendance list \<Rightarrow> error_message list
     \<Rightarrow> py_exception + (attendance list \<times> error_message list)" where
  "validate_records_loop env valid_students holidays year idx [] attendance_objects errors =
     Inr (attendance_objects, errors)"
| "validate_records_loop env valid_students holidays year idx (record # records)
       attendance_objects errors =
     (case validate_single_record env idx record valid_students holidays year of
        Some error \<Rightarrow>
          validate_records_loop env valid_students holidays year (Suc idx) records
            attendance_objects (errors @ [error])
      | None \<Rightarrow>
          (case create_attendance_object env record year valid_students of
             Inl exn \<Rightarrow> Inl exn
           | Inr None \<Rightarrow>
               validate_records_loop env valid_students holidays year (Suc idx) records
                 attendance_objects errors
           | Inr (Some attendance_obj) \<Rightarrow>
               validate_records_loop env valid_students holidays year (Suc idx) records
                 (attendance_objects @ [attendance_obj]) errors))"

definition validate_and_prepare_records ::
  "env \<Rightarrow> database \<Rightarrow> attendance_record list \<Rightarrow> academic_year \<Rightarrow> int \<Rightarrow> date set
     \<Rightarrow> py_exception + (attendance list \<times> error_message list)" where
  "validate_and_prepare_records env db records year school holidays =
     validate_records_loop env (valid_students_of db school records) holidays year 0 records [] []"

subsection \<open>\<^verbatim>\<open>AttendanceValidationService.validate_attendance_records\<close> (\<^verbatim>\<open>records/services.py\<close>)\<close>

text \<open>The body of the service's loop for one record: the error it appends, or the object.\<close>

definition service_validate_record ::
  "env \<Rightarrow> nat \<Rightarrow> attendance_record \<Rightarrow> (int \<rightharpoonup> student \<times> classroom) \<Rightarrow> date set
     \<Rightarrow> academic_year \<Rightarrow> error_message + attendance option" where
  "service_validate_record env idx record valid_students holidays year =
     (if not_student_id (record_student_id record) \<or> not_date_str (record_date record)
      then Inl (MissingStudentOrDate idx)
      else
        (let student_id = the (record_student_id record);
             date_str = the (record_date record)
         in case valid_students student_id of
              None \<Rightarrow> Inl (InvalidStudentId idx student_id)
            | Some (student, room) \<Rightarrow>
                (case strptime env date_str of
                   None \<Rightarrow> Inl (InvalidDateFormat idx date_str)
                 | Some date_obj \<Rightarrow>
                     if is_weekend env date_obj (Some room)
                       then Inl (OnWeekend idx date_str)
                     else if date_obj \<in> holidays
                       then Inl (OnHoliday idx date_str)
                     else (case record_present record of
                             None \<Rightarrow> Inr None
                           | Some present \<Rightarrow>
                               Inr (Some \<lparr> attendance_student_id = Some student_id,
                                            attendance_date = date_obj,
                                            attendance_present = present,
                                            attendance_year = academic_year_id year \<rparr>)))))"

fun service_validate_loop ::
  "env \<Rightarrow> (int \<rightharpoonup> student \<times> classroom) \<Rightarrow> date set \<Rightarrow> academic_year \<Rightarrow> nat
     \<Rightarrow> attendance_record list \<Rightarrow> attendance list \<Rightarrow> error_message list
     \<Rightarrow> attendance list \<times> error_message list" where
  "service_validate_loop env valid_students holidays year idx [] attendance_objects errors =
     (attendance_objects, errors)"
| "service_validate_loop env valid_students holidays year idx (record # records)
       attendance_objects errors =
     (case service_validate_record env idx record valid_students holidays year of
        Inl error \<Rightarrow>
          service_validate_loop env valid_students holidays year (Suc idx) records
            attendance_objects (errors @ [error])
      | Inr None \<Rightarrow>
          service_validate_loop env valid_students holidays year (Suc idx) records
            attendance_objects errors
      | Inr (Some attendance_obj) \<Rightarrow>
          service_validate_loop env valid_students holidays year (Suc idx) records
            (attendance_objects @ [attendance_obj]) errors)"

definition validate_attendance_records ::
  "env \<Rightarrow> database \<Rightarrow> attendance_record list \<Rightarrow> academic_year \<Rightarrow> int \<Rightarrow> date set
     \<Rightarrow> attendance list \<times> error_message list" where
  "validate_attendance_records env db records year school holidays =
     (if records = [] then ([], [NoRecordsProvided])
      else service_validate_loop env (valid_students_of db school records) holidays year 0
             records [] [])"

subsection \<open>The checks as the specification lists them\<close>

text \<open>
  The six failure conditions of a record, each as a predicate of its own, named after the
  specification's list: student id or date missing; the student id does not resolve to a
  student of the school; the date does not parse; the date is after today; the date falls
  on the weekend of the student's classroom; the date is a holiday.
\<close>

definition record_date_obj :: "env \<Rightarrow> attendance_record \<Rightarrow> date option" where
  "record_date_obj env r = (case record_date r of None \<Rightarrow> None | Some s \<Rightarrow> strptime env s)"

definition check_missing :: "attendance_record \<Rightarrow> bool" where
  "check_missing r \<longleftrightarrow> not_student_id (record_student_id r) \<or> not_date_str (record_date r)"

definition check_unknown_student ::
  "(int \<rightharpoonup> student \<times> classroom) \<Rightarrow> attendance_record \<Rightarrow> bool" where
  "check_unknown_student valid_students r \<longleftrightarrow>
     (case record_student_id r of None \<Rightarrow> True | Some sid \<Rightarrow> valid_students sid = None)"

definition check_date_format :: "env \<Rightarrow> attendance_record \<Rightarrow> bool" where
  "check_date_format env r \<longleftrightarrow> record_date_obj env r = None"

definition check_future :: "env \<Rightarrow> attendance_record \<Rightarrow> bool" where
  "check_future env r \<longleftrightarrow>
     (case record_date_obj env r of None \<Rightarrow> False | Some d \<Rightarrow> d > today_now env)"

definition check_weekend ::
  "env \<Rightarrow> (int \<rightharpoonup> student \<times> classroom) \<Rightarrow> attendance_record \<Rightarrow> bool" where
  "check_weekend env valid_students r \<longleftrightarrow>
     (case (record_date_obj env r, record_student_id r) of
        (Some d, Some sid) \<Rightarrow>
          (case valid_students sid of
             Some (s, c) \<Rightarrow> is_weekend env d (Some c)
           | None \<Rightarrow> False)
      | _ \<Rightarrow> False)"

definition check_holiday :: "env \<Rightarrow> date set \<Rightarrow> attendance_record \<Rightarrow> bool" where
  "check_holiday env holidays r \<longleftrightarrow>
     (case record_date_obj env r of None \<Rightarrow> False | Some d \<Rightarrow> d \<in> holidays)"

definition fails_any_check ::
  "env \<Rightarrow> (int \<rightharpoonup> student \<times> classroom) \<Rightarrow> date set \<Rightarrow> attendance_record \<Rightarrow> bool" where
  "fails_any_check env valid_students holidays r \<longleftrightarrow>
     check_missing r \<or> check_unknown_student valid_students r \<or> check_date_format env r
     \<or> check_future env r \<or> check_weekend env valid_students r \<or> check_holiday env holidays r"

text \<open>The first failing condition in the specification's order, as the tagged message.\<close>

definition first_failing_check ::
  "env \<Rightarrow> nat \<Rightarrow> attendance_record \<Rightarrow> (int \<rightharpoonup> student \<times> classroom) \<Rightarrow> date set
     \<Rightarrow> error_message option" where
  "first_failing_check env idx r valid_students holidays =
     (if check_missing r then Some (MissingStudentOrDate idx)
      else if check_unknown_student valid_students r
        then Some (InvalidStudentId idx (the (record_student_id r)))
      else if check_date_format env r
        then Some (InvalidDateFormat idx (the (record_date r)))
      else if check_future env r
        then Some (FutureDate idx (the (record_date r)) (today_now env))
      else if check_weekend env valid_students r
        then Some (OnWeekend idx (the (record_date r)))
      else if check_holiday env holidays r
        then Some (OnHoliday idx (the (record_date r)))
      else None)"

text \<open>The object written for a record that passes: none when \<open>present\<close> is null.\<close>

definition pending_object :: "env \<Rightarrow> academic_year \<Rightarrow> attendance_record \<Rightarrow> attendance list" where
  "pending_object env year r =
     (case record_present r of
        None \<Rightarrow> []
      | Some p \<Rightarrow> [\<lparr> attendance_student_id = record_student_id r,
                      attendance_date = the (record_date_obj env r),
                      attendance_present = p,
                      attendance_year = academic_year_id year \<rparr>])"

text \<open>The index of a tagged message.\<close>

fun error_index :: "error_message \<Rightarrow> nat option" where
  "error_index (MissingStudentOrDate i) = Some i"
| "error_index (InvalidStudentId i _) = Some i"
| "error_index (InvalidDateFormat i _) = Some i"
| "error_index (FutureDate i _ _) = Some i"
| "error_index (OnWeekend i _) = Some i"
| "error_index (OnHoliday i _) = Some i"
| "error_index NoRecordsProvided = None"
| "error_index DatabaseError = None"

section \<open>Weekly statistics (\<^verbatim>\<open>records/statistics_handler.py\<close>)\<close>

text \<open>
  One entry of the weekly report. The label \<^verbatim>\<open>Week {n}: {first} to {last}\<close> is kept as
  its three parts.
\<close>

record week_stats =
  week_num :: nat
  week_first :: date
  week_last :: date
  week_present :: int
  week_total :: int
  week_pending :: int

text \<open>
  \<^verbatim>\<open>Attendance.objects.filter(student_id__in=student_ids, date__range=[lo, hi]).count()\<close>,
  and the same with \<^verbatim>\<open>present=True\<close>.
\<close>

definition count_total :: "database \<Rightarrow> int list \<Rightarrow> date \<Rightarrow> date \<Rightarrow> int" where
  "count_total db student_ids lo hi =
     int (length (filter (\<lambda>a. attendance_student_id a \<in> Some ` set student_ids
                              \<and> lo \<le> attendance_date a \<and> attendance_date a \<le> hi)
                    (attendances db)))"

definition count_present :: "database \<Rightarrow> int list \<Rightarrow> date \<Rightarrow> date \<Rightarrow> int" where
  "count_present db student_ids lo hi =
     int (length (filter (\<lambda>a. attendance_student_id a \<in> Some ` set student_ids
                              \<and> lo \<le> attendance_date a \<and> attendance_date a \<le> hi
                              \<and> attendance_present a)
                    (attendances db)))"

text \<open>The \<^verbatim>\<open>while current <= end_date\<close> loop of \<^verbatim>\<open>compute_weekly_statistics\<close>.\<close>

function compute_weekly_loop ::
  "database \<Rightarrow> int list \<Rightarrow> int \<Rightarrow> date \<Rightarrow> date \<Rightarrow> nat \<Rightarrow> week_stats list
     \<Rightarrow> week_stats list" where
  "compute_weekly_loop db student_ids n_students current end_date week stats =
     (if current \<le> end_date then
        (let week_end = min (current + 6) end_date;
             present = count_present db student_ids current week_end;
             total = count_total db student_ids current week_end;
             entry = \<lparr> week_num = week, week_first = current, week_last = week_end,
                       week_present = present, week_total = total,
                       week_pending = max 0 (n_students * (week_end - current) - total) \<rparr>
         in compute_weekly_loop db student_ids n_students (week_end + 1) end_date (week + 1)
              (stats @ [entry]))
      else stats)"
  by pat_completeness auto
termination
  by (relation "measure (\<lambda>(_, _, _, current, end_date, _, _). nat (end_date + 1 - current))")
     auto

text \<open>The parameter \<open>holidays\<close> is not read by the source either.\<close>

definition compute_weekly_statistics ::
  "database \<Rightarrow> int list \<Rightarrow> int \<Rightarrow> date \<Rightarrow> date \<Rightarrow> date set \<Rightarrow> week_stats list" where
  "compute_weekly_statistics db student_ids n_students start_date end_date holidays =
     compute_weekly_loop db student_ids n_students start_date end_date 1 []"

subsection \<open>The entry of one window\<close>

text \<open>
  What the loop computes: the windows start every seven days from the start of the range,
  each ends six days later or at the end of the range, and the pending estimate of a
  window multiplies the number of students by the difference of its last and first day.
\<close>

definition week_entry :: "database \<Rightarrow> int list \<Rightarrow> int \<Rightarrow> date \<Rightarrow> nat \<Rightarrow> date \<Rightarrow> week_stats" where
  "week_entry db ids n end_date w c =
     \<lparr> week_num = w, week_first = c, week_last = min (c + 6) end_date,
       week_present = count_present db ids c (min (c + 6) end_date),
       week_total = count_total db ids c (min (c + 6) end_date),
       week_pending = max 0 (n * (min (c + 6) end_date - c)
                             - count_total db ids c (min (c + 6) end_date)) \<rparr>"


section \<open>Writing attendance (\<^verbatim>\<open>AttendanceHandler.bulk_create_records\<close>)\<close>







section \<open>Timetable and proxies (\<^verbatim>\<open>timetable/models.py\<close>)\<close>

record teacher =
  teacher_id :: int
  teacher_school :: int

record timetable_entry =
  entry_classroom :: int
  entry_day :: string
  entry_period :: int
  entry_subject :: string
  entry_teacher :: "int option"

text \<open>
  \<^verbatim>\<open>TeacherAttendance\<close>, one row per teacher and date; \<^verbatim>\<open>Absence\<close> is a proxy model on
  the same table.
\<close>

record teacher_attendance =
  absence_id :: int
  absence_teacher :: int
  absence_date :: date
  absence_status :: string

record proxy =
  proxy_id :: int
  proxy_absence :: int
  proxy_classroom :: int
  proxy_day :: string
  proxy_period :: int
  proxy_original_teacher :: int
  proxy_teacher :: int
  proxy_subject :: string
  proxy_date :: date
  proxy_status :: string
  proxy_reason :: string
  proxy_assigned_by :: "int option"
  proxy_completed_at :: "nat option"

text \<open>
  The tables the timetable services read and write, with the next value of the sequence
  behind \<^verbatim>\<open>Proxy.id\<close> (a \<^verbatim>\<open>BigAutoField\<close>).
\<close>

record timetable_db =
  teachers :: "teacher list"
  timetable_entries :: "timetable_entry list"
  teacher_attendances :: "teacher_attendance list"
  proxies :: "proxy list"
  proxy_id_seq :: int
  school_classrooms :: "classroom list"

section \<open>Teacher availability (\<^verbatim>\<open>timetable/timetable_services.py\<close>)\<close>

record availability =
  available :: bool
  reason :: "string option"
  has_class :: bool
  has_proxy :: bool
  is_absent :: bool

text \<open>\<^verbatim>\<open>TeacherAvailabilityService.get_teacher_availability_for_period\<close>\<close>

definition get_teacher_availability_for_period ::
  "timetable_db \<Rightarrow> teacher \<Rightarrow> date \<Rightarrow> string \<Rightarrow> int \<Rightarrow> availability" where
  "get_teacher_availability_for_period db teacher date day period =
     (let result = \<lparr> available = True, reason = None, has_class = False,
                      has_proxy = False, is_absent = False \<rparr>;
          absent = list_ex (\<lambda>a. absence_teacher a = teacher_id teacher
                                 \<and> absence_date a = date
                                 \<and> absence_status a = ''absent'')
                     (teacher_attendances db)
      in if absent then
           result\<lparr> available := False, is_absent := True,
                   reason := Some ''Teacher is absent on this date'' \<rparr>
         else
           (let scheduled = list_ex (\<lambda>e. entry_teacher e = Some (teacher_id teacher)
                                          \<and> entry_day e = day
                                          \<and> entry_period e = period)
                              (timetable_entries db)
            in if scheduled then
                 result\<lparr> available := False, has_class := True,
                         reason := Some ''Teacher has a scheduled class at this period'' \<rparr>
               else
                 (let substituting = list_ex (\<lambda>p. proxy_teacher p = teacher_id teacher
                                                   \<and> proxy_date p = date
                                                   \<and> proxy_day p = day
                                                   \<and> proxy_period p = period
                                                   \<and> proxy_status p \<in> {''assigned'', ''completed''})
                                       (proxies db)
                  in if substituting then
                       result\<lparr> available := False, has_proxy := True,
                               reason := Some ''Teacher already has a proxy assigned at this period'' \<rparr>
                     else result)))"

record unavailable_teacher =
  unavailable_teacher :: teacher
  unavailable_reason :: "string option"
  reason_type :: string

text \<open>The loop over the teachers of \<^verbatim>\<open>get_available_teachers_for_period\<close>.\<close>

fun available_teachers_loop ::
  "timetable_db \<Rightarrow> date \<Rightarrow> string \<Rightarrow> int \<Rightarrow> teacher list \<Rightarrow> teacher list
     \<Rightarrow> unavailable_teacher list \<Rightarrow> teacher list \<times> unavailable_teacher list" where
  "available_teachers_loop db date day period [] available_teachers unavailable_teachers =
     (available_teachers, unavailable_teachers)"
| "available_teachers_loop db date day period (teacher # rest) available_teachers
       unavailable_teachers =
     (let availability = get_teacher_availability_for_period db teacher date day period
      in if available availability then
           available_teachers_loop db date day period rest
             (available_teachers @ [teacher]) unavailable_teachers
         else
           (let kind = (if has_class availability then ''class''
                        else if has_proxy availability then ''proxy''
                        else ''absent'')
            in available_teachers_loop db date day period rest available_teachers
                 (unavailable_teachers @
                    [\<lparr> unavailable_teacher = teacher,
                       unavailable_reason = reason availability,
                       reason_type = kind \<rparr>])))"

text \<open>
  \<^verbatim>\<open>get_available_teachers_for_period\<close>; \<^verbatim>\<open>if exclude_teacher_id\<close> is false for null
  and for zero.
\<close>

definition get_available_teachers_for_period ::
  "timetable_db \<Rightarrow> int \<Rightarrow> date \<Rightarrow> string \<Rightarrow> int \<Rightarrow> int option
     \<Rightarrow> teacher list \<times> unavailable_teacher list" where
  "get_available_teachers_for_period db school date day period exclude_teacher_id =
     (let all_teachers = filter (\<lambda>t. teacher_school t = school) (teachers db);
          all_teachers = (case exclude_teacher_id of
                            None \<Rightarrow> all_teachers
                          | Some x \<Rightarrow> if x = 0 then all_teachers
                                      else filter (\<lambda>t. teacher_id t \<noteq> x) all_teachers)
      in available_teachers_loop db date day period all_teachers [] [])"

section \<open>Proxy assignment (\<^verbatim>\<open>timetable/timetable_services.py\<close>, \<^verbatim>\<open>timetable/views.py\<close>)\<close>

datatype orm_exception = DoesNotExist | MultipleObjectsReturned

text \<open>\<^verbatim>\<open>Model.objects.get(...)\<close>: the one row that matches, or an exception.\<close>

definition objects_get :: "('a \<Rightarrow> bool) \<Rightarrow> 'a list \<Rightarrow> orm_exception + 'a" where
  "objects_get matches rows =
     (case filter matches rows of
        [] \<Rightarrow> Inl DoesNotExist
      | [row] \<Rightarrow> Inr row
      | _ \<Rightarrow> Inl MultipleObjectsReturned)"

text \<open>\<^verbatim>\<open>proxy.save()\<close> of a stored row: the row of that id is replaced.\<close>

definition save_proxy :: "proxy \<Rightarrow> timetable_db \<Rightarrow> timetable_db" where
  "save_proxy p db =
     db\<lparr>proxies := map (\<lambda>q. if proxy_id q = proxy_id p then p else q) (proxies db)\<rparr>"

text \<open>\<^verbatim>\<open>absence.date.strftime('%A').lower()\<close>\<close>

definition day_name :: "date \<Rightarrow> string" where
  "day_name d =
     [''monday'', ''tuesday'', ''wednesday'', ''thursday'', ''friday'', ''saturday'', ''sunday'']
       ! nat (weekday d)"

text \<open>
  \<^verbatim>\<open>ProxyAssignmentService.assign_proxy\<close>: \<^verbatim>\<open>Proxy.objects.update_or_create\<close> looks the
  slot \<open>(absence, classroom, day, period)\<close> up, updates the row it finds with the defaults
  or creates the row from the lookup and the defaults.
\<close>

definition assign_proxy ::
  "timetable_db \<Rightarrow> teacher_attendance \<Rightarrow> int \<Rightarrow> classroom \<Rightarrow> teacher \<Rightarrow> int \<Rightarrow> string
     \<Rightarrow> orm_exception + (proxy \<times> timetable_db)" where
  "assign_proxy db absence period room substitute assigned_by_user subject =
     (let day = day_name (absence_date absence)
      in case objects_get (\<lambda>p. proxy_absence p = absence_id absence
                               \<and> proxy_classroom p = classroom_id room
                               \<and> proxy_day p = day
                               \<and> proxy_period p = period) (proxies db) of
           Inr found \<Rightarrow>
             (let updated = found\<lparr> proxy_original_teacher := absence_teacher absence,
                                   proxy_teacher := teacher_id substitute,
                                   proxy_subject := subject,
                                   proxy_date := absence_date absence,
                                   proxy_status := ''assigned'',
                                   proxy_assigned_by := Some assigned_by_user \<rparr>
              in Inr (updated, save_proxy updated db))
         | Inl DoesNotExist \<Rightarrow>
             (let created = \<lparr> proxy_id = proxy_id_seq db,
                              proxy_absence = absence_id absence,
                              proxy_classroom = classroom_id room,
                              proxy_day = day,
                              proxy_period = period,
                              proxy_original_teacher = absence_teacher absence,
                              proxy_teacher = teacher_id substitute,
                              proxy_subject = subject,
                              proxy_date = absence_date absence,
                              proxy_status = ''assigned'',
                              proxy_reason = [],
                              proxy_assigned_by = Some assigned_by_user,
                              proxy_completed_at = None \<rparr>
              in Inr (created, db\<lparr> proxies := proxies db @ [created],
                                   proxy_id_seq := proxy_id_seq db + 1 \<rparr>))
         | Inl MultipleObjectsReturned \<Rightarrow> Inl MultipleObjectsReturned)"

text \<open>
  \<^verbatim>\<open>ProxyAssignmentService.cancel_proxy\<close>: only \<^verbatim>\<open>Proxy.DoesNotExist\<close> is caught.
\<close>

definition cancel_proxy :: "timetable_db \<Rightarrow> int \<Rightarrow> orm_exception + (bool \<times> timetable_db)" where
  "cancel_proxy db pid =
     (case objects_get (\<lambda>p. proxy_id p = pid) (proxies db) of
        Inr found \<Rightarrow> Inr (True, save_proxy (found\<lparr>proxy_status := ''cancelled''\<rparr>) db)
      | Inl DoesNotExist \<Rightarrow> Inr (False, db)
      | Inl MultipleObjectsReturned \<Rightarrow> Inl MultipleObjectsReturned)"

text \<open>
  \<^verbatim>\<open>CompleteProxyView.post\<close> for a user of the given school at the given time: the
  response is 404 or the completed proxy.
\<close>

datatype http_response = Http404 | Http200 proxy

definition complete_proxy ::
  "timetable_db \<Rightarrow> int \<Rightarrow> int \<Rightarrow> nat \<Rightarrow> orm_exception + (http_response \<times> timetable_db)" where
  "complete_proxy db pid user_school now =
     (case objects_get
             (\<lambda>p. proxy_id p = pid
                   \<and> list_ex (\<lambda>c. classroom_id c = proxy_classroom p
                                    \<and> classroom_school c = user_school)
                        (school_classrooms db)) (proxies db) of
        Inr found \<Rightarrow>
          (let completed = found\<lparr> proxy_status := ''completed'',
                                  proxy_completed_at := Some now \<rparr>
           in Inr (Http200 completed, save_proxy completed db))
      | Inl DoesNotExist \<Rightarrow> Inr (Http404, db)
      | Inl MultipleObjectsReturned \<Rightarrow> Inl MultipleObjectsReturned)"

subsection \<open>Sequences of engine operations\<close>

datatype engine_op =
    Assign teacher_attendance int classroom teacher int string
  | Cancel int
  | Complete int int nat

text \<open>An operation that raises writes nothing.\<close>

fun apply_op :: "timetable_db \<Rightarrow> engine_op \<Rightarrow> timetable_db" where
  "apply_op db (Assign absence period room substitute user subject) =
     (case assign_proxy db absence period room substitute user subject of
        Inr (_, db') \<Rightarrow> db' | Inl _ \<Rightarrow> db)"
| "apply_op db (Cancel pid) =
     (case cancel_proxy db pid of Inr (_, db') \<Rightarrow> db' | Inl _ \<Rightarrow> db)"
| "apply_op db (Complete pid user_school now) =
     (case complete_proxy db pid user_school now of Inr (_, db') \<Rightarrow> db' | Inl _ \<Rightarrow> db)"

definition run_ops :: "timetable_db \<Rightarrow> engine_op list \<Rightarrow> timetable_db" where
  "run_ops db ops = foldl apply_op db ops"

text \<open>The status an operation writes.\<close>

fun written_status :: "engine_op \<Rightarrow> string" where
  "written_status (Assign _ _ _ _ _ _) = ''assigned''"
| "written_status (Cancel _) = ''cancelled''"
| "written_status (Complete _ _ _) = ''completed''"

text \<open>The status of the proxy of a given id, if there is one.\<close>

definition proxy_status_of :: "timetable_db \<Rightarrow> int \<Rightarrow> string option" where
  "proxy_status_of db pid =
     map_option proxy_status (find (\<lambda>p. proxy_id p = pid) (proxies db))"

text \<open>
  The store is well formed when the ids of the proxies are distinct and below the next
  value of the sequence.
\<close>

definition proxies_wf :: "timetable_db \<Rightarrow> bool" where
  "proxies_wf db \<longleftrightarrow>
     distinct (map proxy_id (proxies db))
     \<and> list_all (\<lambda>p. proxy_id p < proxy_id_seq db) (proxies db)"

section \<open>Example data\<close>

text \<open>
  A classroom of ten students over the twenty days from Sunday 2024-01-07 (ordinal 738892)
  to Friday 2024-01-26 (738911), with Sunday as the only weekend day and one holiday on
  Wednesday 2024-01-10 (738895).
\<close>

text \<open>
  Today is Thursday 2024-02-01 (738917). The date parser knows Monday 2024-01-08, the
  holiday, Sunday 2024-01-14 and tomorrow, 2024-02-02; every other string fails to parse.
\<close>

definition scenario_env :: env where
  "scenario_env = \<lparr> json_loads = (\<lambda>s. None),
     strptime = map_of [(''2024-01-08'', 738893), (''2024-01-10'', 738895),
                        (''2024-01-14'', 738899), (''2024-02-02'', 738918)],
     today_now = 738917 \<rparr>"

text \<open>
  A batch of eight submissions: one for each failure condition in turn, then a valid one
  and one whose \<open>present\<close> is null.
\<close>

definition scenario_batch :: "attendance_record list" where
  "scenario_batch =
     [\<lparr> record_student_id = None, record_date = Some ''2024-01-08'', record_present = Some True \<rparr>,
      \<lparr> record_student_id = Some 99, record_date = Some ''2024-01-08'', record_present = Some True \<rparr>,
      \<lparr> record_student_id = Some 1, record_date = Some ''08/01/2024'', record_present = Some True \<rparr>,
      \<lparr> record_student_id = Some 1, record_date = Some ''2024-02-02'', record_present = Some True \<rparr>,
      \<lparr> record_student_id = Some 1, record_date = Some ''2024-01-14'', record_present = Some True \<rparr>,
      \<lparr> record_student_id = Some 1, record_date = Some ''2024-01-10'', record_present = Some True \<rparr>,
      \<lparr> record_student_id = Some 1, record_date = Some ''2024-01-08'', record_present = Some False \<rparr>,
      \<lparr> record_student_id = Some 2, record_date = Some ''2024-01-08'', record_present = None \<rparr>]"

definition scenario_classroom :: classroom where
  "scenario_classroom = \<lparr> classroom_id = 1, classroom_name = ''5-A'', classroom_school = 1,
     classroom_academic_year = 1, classroom_start_date = Some 738892,
     classroom_end_date = Some 738911, classroom_weekend_days = JList [0] \<rparr>"

definition scenario_year :: academic_year where
  "scenario_year = \<lparr> academic_year_id = 1, academic_year_school = 1 \<rparr>"

definition scenario_db :: database where
  "scenario_db = \<lparr> classrooms = [scenario_classroom],
     students = map (\<lambda>i. \<lparr> student_id = i, student_roll_number = i, student_classroom = Some 1 \<rparr>)
                  [1, 2, 3, 4, 5, 6, 7, 8, 9, 10],
     attendances = [\<lparr> attendance_student_id = Some 1, attendance_date = 738893,
                      attendance_present = True, attendance_year = 1 \<rparr>,
                    \<lparr> attendance_student_id = Some 2, attendance_date = 738893,
                      attendance_present = False, attendance_year = 1 \<rparr>],
     holidays_table = [\<lparr> holiday_year = 1, holiday_date = 738895 \<rparr>] \<rparr>"

text \<open>
  A school with four teachers on Monday 2024-01-08 (ordinal 738893), period 2: teacher 1
  is absent and has a class at that period, teacher 2 has a class, teacher 3 substitutes
  in another classroom, teacher 4 is free. The proxy of teacher 3 has id 1.
\<close>

definition scenario_absence :: teacher_attendance where
  "scenario_absence = \<lparr> absence_id = 1, absence_teacher = 1, absence_date = 738893,
     absence_status = ''absent'' \<rparr>"

definition scenario_teachers :: "teacher list" where
  "scenario_teachers = map (\<lambda>i. \<lparr> teacher_id = i, teacher_school = 1 \<rparr>) [1, 2, 3, 4]"

definition scenario_timetable :: timetable_db where
  "scenario_timetable = \<lparr>
     teachers = scenario_teachers,
     timetable_entries =
       [\<lparr> entry_classroom = 1, entry_day = ''monday'', entry_period = 2,
          entry_subject = ''Math'', entry_teacher = Some 1 \<rparr>,
        \<lparr> entry_classroom = 2, entry_day = ''monday'', entry_period = 2,
          entry_subject = ''Science'', entry_teacher = Some 2 \<rparr>],
     teacher_attendances = [scenario_absence],
     proxies =
       [\<lparr> proxy_id = 1, proxy_absence = 7, proxy_classroom = 3, proxy_day = ''monday'',
          proxy_period = 2, proxy_original_teacher = 9, proxy_teacher = 3,
          proxy_subject = ''Art'', proxy_date = 738893, proxy_status = ''assigned'',
          proxy_reason = [], proxy_assigned_by = None, proxy_completed_at = None \<rparr>],
     proxy_id_seq = 2,
     school_classrooms = [scenario_classroom] \<rparr>"

text \<open>Assigning teacher 4 to the class of the absent teacher 1 creates the proxy of id 2.\<close>

definition scenario_assign :: engine_op where
  "scenario_assign =
     Assign scenario_absence 2 scenario_classroom \<lparr> teacher_id = 4, teacher_school = 1 \<rparr> 1 ''Math''"

section \<open>Properties\<close>

subsection \<open>School days\<close>

declare count_school_days_loop.simps [simp del]

lemma count_school_days_loop_card:
  "count_school_days_loop c e W H acc =
     acc + int (card {d \<in> {c..e}. weekend_code d \<notin> set W \<and> d \<notin> H})"
proof (induction c e W H acc rule: count_school_days_loop.induct)
  case (1 c e W H acc)
  show ?case
  proof (cases "c \<le> e")
    case False
    then show ?thesis
      by (simp add: count_school_days_loop.simps [of c e])
  next
    case True
    let ?P = "\<lambda>d. weekend_code d \<notin> set W \<and> d \<notin> H"
    have split: "{c..e} = insert c {c + 1..e}"
      using True by auto
    have fin: "finite {d \<in> {c + 1..e}. ?P d}"
      by (rule finite_subset [of _ "{c + 1..e}"]) auto
    have notin: "c \<notin> {d \<in> {c + 1..e}. ?P d}"
      by auto
    have step: "int (card {d \<in> {c..e}. ?P d}) =
        (if ?P c then 1 else 0) + int (card {d \<in> {c + 1..e}. ?P d})"
    proof (cases "?P c")
      case True
      have "{d \<in> {c..e}. ?P d} = insert c {d \<in> {c + 1..e}. ?P d}"
        unfolding split using True by blast
      then show ?thesis
        using True fin notin by simp
    next
      case False
      have "{d \<in> {c..e}. ?P d} = {d \<in> {c + 1..e}. ?P d}"
        unfolding split using False by blast
      then show ?thesis
        using False by simp
    qed
    show ?thesis
      using True "1.IH" [OF True refl refl refl] step
      by (simp add: count_school_days_loop.simps [of c e] weekend_code_def Let_def)
  qed
qed

lemma school_day_partition:
  fixes A :: "date set"
  assumes "finite A"
  shows "int (card {d \<in> A. \<not> w d \<and> d \<notin> H}) =
         int (card A) - int (card {d \<in> A. w d}) - int (card {d \<in> A. d \<in> H \<and> \<not> w d})"
proof -
  let ?S = "{d \<in> A. \<not> w d \<and> d \<notin> H}"
  let ?W = "{d \<in> A. w d}"
  let ?Hs = "{d \<in> A. d \<in> H \<and> \<not> w d}"
  have A: "A = ?S \<union> (?W \<union> ?Hs)"
    by blast
  have d1: "?S \<inter> (?W \<union> ?Hs) = {}"
    by blast
  have d2: "?W \<inter> ?Hs = {}"
    by blast
  have "card A = card ?S + card (?W \<union> ?Hs)"
    using card_Un_disjoint [of ?S "?W \<union> ?Hs"] assms d1 A by simp
  also have "card (?W \<union> ?Hs) = card ?W + card ?Hs"
    using card_Un_disjoint [of ?W ?Hs] assms d2 by simp
  finally show ?thesis
    by simp
qed

text \<open>
  C1. For dates \<open>start \<le> end\<close>, every list of weekend-day codes \<open>W\<close> and every holiday
  set \<open>H\<close>, \<open>count_school_days start end W H\<close> is the number of days of the inclusive
  range, minus the days of the range whose day-of-week code \<open>(weekday + 1) mod 7\<close> is in
  \<open>W\<close>, minus the holidays of the range that are not also weekend days: a date that is
  both is taken off once.
\<close>

theorem count_school_days_formula:
  assumes "start \<le> end"
  shows "count_school_days start end W H =
           (end - start + 1)
           - int (card {d \<in> {start..end}. (weekday d + 1) mod 7 \<in> set W})
           - int (card {d \<in> {start..end}. d \<in> H \<and> (weekday d + 1) mod 7 \<notin> set W})"
proof -
  have "count_school_days start end W H =
          int (card {d \<in> {start..end}. weekend_code d \<notin> set W \<and> d \<notin> H})"
    by (simp add: count_school_days_def count_school_days_loop_card)
  also have "\<dots> = int (card {start..end})
                 - int (card {d \<in> {start..end}. weekend_code d \<in> set W})
                 - int (card {d \<in> {start..end}. d \<in> H \<and> weekend_code d \<notin> set W})"
    using school_day_partition [of "{start..end}" "\<lambda>d. weekend_code d \<in> set W" H] by simp
  also have "int (card {start..end}) = end - start + 1"
    using assms by simp
  finally show ?thesis
    by (simp add: weekend_code_def)
qed

text \<open>
  The week from Monday 2024-01-01 (ordinal 738886) to Sunday 2024-01-07 with the weekend
  Sunday and Saturday and a holiday on the Wednesday has four school days.
\<close>

theorem count_school_days_formula_witness:
  "(738886::int) \<le> 738892 \<and>
   (738892 - 738886 + 1)
     - int (card {d \<in> {738886..738892}. (weekday d + 1) mod 7 \<in> set [0, 6]})
     - int (card {d \<in> {738886..738892}. d \<in> {738888} \<and> (weekday d + 1) mod 7 \<notin> set [0, 6]})
   = (4::int)"
proof -
  have h: "(738886::int) \<le> 738892"
    by simp
  have ev: "count_school_days 738886 738892 [0, 6] {738888} = 4"
    by code_simp
  show ?thesis
    using h count_school_days_formula [OF h, of "[0, 6]" "{738888}"] ev by simp
qed

subsection \<open>Classroom statistics\<close>

text \<open>
  C2. \<open>get_classroom_stats\<close> returns \<open>None\<close> exactly when the classroom has no enrolled
  student. Otherwise the statistics run over the effective range: from the classroom's
  start date to the earlier of its end date and today when the classroom has both dates,
  and from the first of January of today's year to today when it lacks one. The expected
  records are the school days of that range (counted with the classroom's parsed weekend
  days and the holidays) times the number of students, the attendance records are the
  rows of the classroom's students in that range and year, the pending records are
  \<open>max 0 (expected_records - attendance_records)\<close>, and the classroom is completed if
  and only if no record is pending.
\<close>

theorem get_classroom_stats_invariant:
  "(get_classroom_stats env db c y H today = None
      \<longleftrightarrow> length (filter (\<lambda>s. student_classroom s = Some (classroom_id c)) (students db)) = 0)
   \<and> (\<forall>r. get_classroom_stats env db c y H today = Some r \<longrightarrow>
          (\<forall>s e. classroom_start_date c = Some s \<and> classroom_end_date c = Some e \<longrightarrow>
              stats_start_date r = s \<and> stats_end_date r = min e today
              \<and> expected_records r =
                  count_school_days s (min e today)
                    (parse_weekend_days (json_loads env) (classroom_weekend_days c)) H
                  * int (length (filter (\<lambda>s. student_classroom s = Some (classroom_id c))
                                  (students db))))
        \<and> (classroom_start_date c = None \<or> classroom_end_date c = None \<longrightarrow>
              stats_start_date r = replace_month1_day1 today \<and> stats_end_date r = today
              \<and> expected_records r =
                  count_school_days (replace_month1_day1 today) today
                    (parse_weekend_days (json_loads env) (classroom_weekend_days c)) H
                  * int (length (filter (\<lambda>s. student_classroom s = Some (classroom_id c))
                                  (students db))))
        \<and> student_count r =
            int (length (filter (\<lambda>s. student_classroom s = Some (classroom_id c)) (students db)))
        \<and> attendance_records r =
            int (length (filter
              (\<lambda>a. (\<exists>s \<in> set (students db). student_classroom s = Some (classroom_id c)
                                               \<and> attendance_student_id a = Some (student_id s))
                    \<and> stats_start_date r \<le> attendance_date a
                    \<and> attendance_date a \<le> stats_end_date r
                    \<and> attendance_year a = academic_year_id y)
              (attendances db)))
        \<and> pending_records r = max 0 (expected_records r - attendance_records r)
        \<and> (is_completed r \<longleftrightarrow> pending_records r = 0))"
proof -
  have rows: "(a \<in> Some ` set (classroom_student_ids db c))
                \<longleftrightarrow> (\<exists>s \<in> set (students db). student_classroom s = Some (classroom_id c)
                                               \<and> a = Some (student_id s))" for a
    by (auto simp: classroom_student_ids_def)
  show ?thesis
    by (auto simp: get_classroom_stats_def stats_date_range_def stats_attendance_rows_def
          rows Let_def classroom_student_ids_def
        split: prod.splits option.splits
        intro!: arg_cong [where f = length] filter_cong)
qed

text \<open>
  The example classroom on Monday 2024-01-15 (738900), before its end date: the range
  stops today, its nine days hold two Sundays and the holiday, so ten students give 60
  expected records, of which 58 are pending. Without an end date, on 2024-02-01, the
  range starts on 2024-01-01 (738886): 32 days, four Sundays and the holiday give 270.
\<close>

theorem get_classroom_stats_invariant_witness:
  "(\<exists>r. get_classroom_stats scenario_env scenario_db scenario_classroom scenario_year
            {738895} 738900 = Some r
        \<and> classroom_start_date scenario_classroom = Some 738892
        \<and> classroom_end_date scenario_classroom = Some 738911
        \<and> stats_start_date r = 738892
        \<and> stats_end_date r = min 738911 738900
        \<and> expected_records r = count_school_days 738892 738900 [0] {738895} * 10
        \<and> expected_records r = 60
        \<and> attendance_records r = 2
        \<and> pending_records r = 58
        \<and> \<not> is_completed r)
   \<and> (\<exists>r. get_classroom_stats scenario_env scenario_db
            (scenario_classroom\<lparr>classroom_end_date := None\<rparr>) scenario_year
            {738895} 738917 = Some r
        \<and> stats_start_date r = 738886
        \<and> stats_end_date r = 738917
        \<and> expected_records r = count_school_days 738886 738917 [0] {738895} * 10
        \<and> expected_records r = 270)"
proof -
  let ?c = "scenario_classroom\<lparr>classroom_end_date := None\<rparr>"
  have ev1: "get_classroom_stats scenario_env scenario_db scenario_classroom scenario_year
              {738895} 738900
            = Some \<lparr> stats_classroom_id = 1, stats_classroom_name = ''5-A'',
                student_count = 10, attendance_records = 2, present_count = 1,
                expected_records = 60, pending_records = 58, is_completed = False,
                stats_start_date = 738892, stats_end_date = 738900 \<rparr>"
    by code_simp
  have ev2: "get_classroom_stats scenario_env scenario_db ?c scenario_year {738895} 738917
            = Some \<lparr> stats_classroom_id = 1, stats_classroom_name = ''5-A'',
                student_count = 10, attendance_records = 2, present_count = 1,
                expected_records = 270, pending_records = 268, is_completed = False,
                stats_start_date = 738886, stats_end_date = 738917 \<rparr>"
    by code_simp
  have dates: "classroom_start_date scenario_classroom = Some 738892"
    "classroom_end_date scenario_classroom = Some 738911"
    "classroom_end_date ?c = None"
    by (simp_all add: scenario_classroom_def)
  have wk: "parse_weekend_days (json_loads scenario_env)
              (classroom_weekend_days scenario_classroom) = [0]"
    "parse_weekend_days (json_loads scenario_env) (classroom_weekend_days ?c) = [0]"
    by code_simp+
  have n: "length (filter (\<lambda>s. student_classroom s = Some (classroom_id scenario_classroom))
             (students scenario_db)) = 10"
    "length (filter (\<lambda>s. student_classroom s = Some (classroom_id ?c))
             (students scenario_db)) = 10"
    by code_simp+
  have jan: "replace_month1_day1 738917 = 738886"
    by code_simp
  have one: "expected_records \<lparr> stats_classroom_id = 1, stats_classroom_name = ''5-A'',
                student_count = 10, attendance_records = 2, present_count = 1,
                expected_records = 60, pending_records = 58, is_completed = False,
                stats_start_date = 738892, stats_end_date = 738900 \<rparr>
              = count_school_days 738892 (min 738911 738900) [0] {738895} * 10"
    using get_classroom_stats_invariant [of scenario_env scenario_db scenario_classroom
        scenario_year "{738895}" 738900] ev1 dates wk n
    by simp
  have two: "expected_records \<lparr> stats_classroom_id = 1, stats_classroom_name = ''5-A'',
                student_count = 10, attendance_records = 2, present_count = 1,
                expected_records = 270, pending_records = 268, is_completed = False,
                stats_start_date = 738886, stats_end_date = 738917 \<rparr>
              = count_school_days 738886 738917 [0] {738895} * 10"
    using get_classroom_stats_invariant [of scenario_env scenario_db ?c
        scenario_year "{738895}" 738917] ev2 dates wk n jan
    by simp
  show ?thesis
    using ev1 ev2 dates one two by simp
qed

subsection \<open>Validation of submissions\<close>

lemma validate_single_record_first_failing:
  "validate_single_record env idx r vs H y = first_failing_check env idx r vs H"
  by (auto simp: validate_single_record_def first_failing_check_def check_missing_def
        check_unknown_student_def check_date_format_def check_future_def check_weekend_def
        check_holiday_def record_date_obj_def not_student_id_def not_date_str_def Let_def
      split: option.splits)

lemma first_failing_check_None:
  "first_failing_check env idx r vs H = None \<longleftrightarrow> \<not> fails_any_check env vs H r"
  by (simp add: first_failing_check_def fails_any_check_def)

lemma first_failing_check_index:
  "first_failing_check env idx r vs H = Some e \<Longrightarrow> error_index e = Some idx"
  by (auto simp: first_failing_check_def split: if_splits)

text \<open>After a record has passed the checks, building its object raises nothing.\<close>

lemma create_after_validation:
  assumes "validate_single_record env idx r vs H y = None"
  shows "create_attendance_object env r y vs =
           Inr (case pending_object env y r of [] \<Rightarrow> None | a # _ \<Rightarrow> Some a)"
  using assms
  by (auto simp: validate_single_record_def create_attendance_object_def pending_object_def
        record_date_obj_def not_date_str_def Let_def
      split: option.splits if_splits)

lemma validate_records_loop_eq:
  "validate_records_loop env vs H y idx rs objs errs =
     Inr (objs @ concat (map (\<lambda>r. if fails_any_check env vs H r then []
                                   else pending_object env y r) rs),
          errs @ List.map_filter (\<lambda>(i, r). first_failing_check env i r vs H)
                   (enumerate idx rs))"
proof (induction rs arbitrary: idx objs errs)
  case Nil
  then show ?case by (simp add: List.map_filter_simps)
next
  case (Cons r rs)
  show ?case
  proof (cases "first_failing_check env idx r vs H")
    case None
    then have pass: "\<not> fails_any_check env vs H r"
      by (simp add: first_failing_check_None)
    have v: "validate_single_record env idx r vs H y = None"
      using None by (simp add: validate_single_record_first_failing)
    show ?thesis
      using None pass v create_after_validation [OF v] Cons.IH
      by (auto simp: List.map_filter_simps pending_object_def split: option.splits)
  next
    case (Some e)
    then have fail: "fails_any_check env vs H r"
      using first_failing_check_None [of env idx r vs H] by auto
    show ?thesis
      using Some fail Cons.IH
      by (simp add: List.map_filter_simps validate_single_record_first_failing)
  qed
qed

text \<open>
  C3. The validation of one record reports the first failing condition in the order
  missing student id or date, unknown student, unparsable date, future date, weekend,
  holiday, as a message tagged with the record's index. For a batch,
  \<open>validate_and_prepare_records\<close> raises nothing; its error list holds, in the order of
  the batch, the first failing condition of every record that fails one, and its object
  list holds objects only for the records that fail none of the six conditions.
\<close>

theorem validation_checks_in_order:
  "validate_single_record env idx r vs H y = first_failing_check env idx r vs H
   \<and> (\<forall>e. validate_single_record env idx r vs H y = Some e \<longrightarrow> error_index e = Some idx)
   \<and> (validate_single_record env idx r vs H y = None \<longleftrightarrow> \<not> fails_any_check env vs H r)
   \<and> validate_and_prepare_records env db records y school H =
       Inr (concat (map (\<lambda>r. if fails_any_check env (valid_students_of db school records) H r
                              then [] else pending_object env y r) records),
            List.map_filter
              (\<lambda>(i, r). first_failing_check env i r (valid_students_of db school records) H)
              (enumerate 0 records))"
  using first_failing_check_index [of env idx r vs H]
  by (simp add: validate_single_record_first_failing first_failing_check_None
      validate_and_prepare_records_def validate_records_loop_eq)

text \<open>
  On the example batch the six failing records give the six messages, tagged 0 to 5, and
  the only object is the one of record 6.
\<close>

theorem validation_checks_in_order_witness:
  "validate_single_record scenario_env 4 (scenario_batch ! 4)
       (valid_students_of scenario_db 1 scenario_batch) {738895} scenario_year
     = Some (OnWeekend 4 ''2024-01-14'')
   \<and> error_index (OnWeekend 4 ''2024-01-14'') = Some 4
   \<and> validate_and_prepare_records scenario_env scenario_db scenario_batch scenario_year 1
       {738895}
     = Inr ([\<lparr> attendance_student_id = Some 1, attendance_date = 738893,
                attendance_present = False, attendance_year = 1 \<rparr>],
            [MissingStudentOrDate 0, InvalidStudentId 1 99, InvalidDateFormat 2 ''08/01/2024'',
             FutureDate 3 ''2024-02-02'' 738917, OnWeekend 4 ''2024-01-14'',
             OnHoliday 5 ''2024-01-10''])"
proof -
  let ?vs = "valid_students_of scenario_db 1 scenario_batch"
  have one: "first_failing_check scenario_env 4 (scenario_batch ! 4) ?vs {738895}
               = Some (OnWeekend 4 ''2024-01-14'')"
    by code_simp
  have objs: "concat (map (\<lambda>r. if fails_any_check scenario_env ?vs {738895} r
                                 then [] else pending_object scenario_env scenario_year r)
                scenario_batch)
              = [\<lparr> attendance_student_id = Some 1, attendance_date = 738893,
                   attendance_present = False, attendance_year = 1 \<rparr>]"
    by code_simp
  have errs: "List.map_filter (\<lambda>(i, r). first_failing_check scenario_env i r ?vs {738895})
                (enumerate 0 scenario_batch)
              = [MissingStudentOrDate 0, InvalidStudentId 1 99,
                 InvalidDateFormat 2 ''08/01/2024'', FutureDate 3 ''2024-02-02'' 738917,
                 OnWeekend 4 ''2024-01-14'', OnHoliday 5 ''2024-01-10'']"
    by code_simp
  show ?thesis
    using validation_checks_in_order [of scenario_env 4 "scenario_batch ! 4" ?vs "{738895}"
        scenario_year scenario_db scenario_batch 1] one objs errs
    by simp
qed

lemma set_map_filter_eq:
  "set (List.map_filter f xs) = {y. \<exists>x \<in> set xs. f x = Some y}"
  by (induction xs) (auto simp: List.map_filter_simps split: option.splits)

lemma tagged_error_iff:
  "(\<exists>e \<in> set (List.map_filter (\<lambda>(i, r). first_failing_check env i r vs H)
                    (enumerate 0 records)). error_index e = Some n)
     \<longleftrightarrow> n < length records \<and> fails_any_check env vs H (records ! n)"
proof
  assume "\<exists>e \<in> set (List.map_filter (\<lambda>(i, r). first_failing_check env i r vs H)
                        (enumerate 0 records)). error_index e = Some n"
  then obtain e i r where
    mem: "(i, r) \<in> set (enumerate 0 records)" and
    ffc: "first_failing_check env i r vs H = Some e" and
    idx: "error_index e = Some n"
    by (auto simp: set_map_filter_eq)
  have "i = n"
    using first_failing_check_index [OF ffc] idx by simp
  moreover have "i < length records" and "r = records ! i"
    using mem by (auto simp: in_set_enumerate_eq)
  moreover have "fails_any_check env vs H r"
    using ffc first_failing_check_None [of env i r vs H] by auto
  ultimately show "n < length records \<and> fails_any_check env vs H (records ! n)"
    by simp
next
  assume a: "n < length records \<and> fails_any_check env vs H (records ! n)"
  then obtain e where ffc: "first_failing_check env n (records ! n) vs H = Some e"
    using first_failing_check_None [of env n "records ! n" vs H] by auto
  have mem: "(n, records ! n) \<in> set (enumerate 0 records)"
    using a by (simp add: in_set_enumerate_eq)
  have "e \<in> set (List.map_filter (\<lambda>(i, r). first_failing_check env i r vs H)
                  (enumerate 0 records))"
    unfolding set_map_filter_eq using mem ffc by force
  then show "\<exists>e \<in> set (List.map_filter (\<lambda>(i, r). first_failing_check env i r vs H)
                         (enumerate 0 records)). error_index e = Some n"
    using first_failing_check_index [OF ffc] by blast
qed

text \<open>
  C4 as stated fails: a record whose \<open>present\<close> is null goes through the six checks like
  any other, and one that fails a check gets its error message. A submission for the
  holiday with a null \<open>present\<close> is answered with the holiday error.
\<close>

theorem null_present_error_counterexample:
  "record_present \<lparr> record_student_id = Some 1, record_date = Some ''2024-01-10'',
                    record_present = None \<rparr> = None
   \<and> validate_and_prepare_records scenario_env scenario_db
       [\<lparr> record_student_id = Some 1, record_date = Some ''2024-01-10'',
          record_present = None \<rparr>] scenario_year 1 {738895}
     = Inr ([], [OnHoliday 0 ''2024-01-10''])"
  by code_simp

text \<open>
  C4, amended. A record whose \<open>present\<close> is null never yields an object: the objects of
  a batch are those of its other records. Validation produces an error message tagged
  with the record's index exactly when the record fails one of the six checks; a record
  with a null \<open>present\<close> that passes them is skipped without any message.
\<close>

theorem null_present_skipped:
  assumes "record_present r = None"
  shows "\<exists>objs errs.
           validate_and_prepare_records env db (xs @ r # ys) y school H = Inr (objs, errs)
           \<and> objs = concat (map (\<lambda>r'. if fails_any_check env
                                            (valid_students_of db school (xs @ r # ys)) H r'
                                        then [] else pending_object env y r') (xs @ ys))
           \<and> ((\<exists>e \<in> set errs. error_index e = Some (length xs))
                \<longleftrightarrow> fails_any_check env (valid_students_of db school (xs @ r # ys)) H r)"
proof -
  let ?vs = "valid_students_of db school (xs @ r # ys)"
  have none: "pending_object env y r = []"
    using assms by (simp add: pending_object_def)
  have "(\<exists>e \<in> set (List.map_filter (\<lambda>(i, r). first_failing_check env i r ?vs H)
                      (enumerate 0 (xs @ r # ys))). error_index e = Some (length xs))
          \<longleftrightarrow> fails_any_check env ?vs H r"
    unfolding tagged_error_iff by simp
  then show ?thesis
    unfolding validate_and_prepare_records_def validate_records_loop_eq
    using none by simp
qed

text \<open>
  A lone submission with a null \<open>present\<close> for a school day: nothing is written and
  nothing is reported.
\<close>

theorem null_present_skipped_witness:
  "record_present \<lparr> record_student_id = Some 2, record_date = Some ''2024-01-08'',
                    record_present = None \<rparr> = None
   \<and> validate_and_prepare_records scenario_env scenario_db
       [\<lparr> record_student_id = Some 2, record_date = Some ''2024-01-08'',
          record_present = None \<rparr>] scenario_year 1 {738895}
     = Inr ([], [])"
proof -
  let ?r = "\<lparr> record_student_id = Some 2, record_date = Some ''2024-01-08'',
              record_present = None \<rparr>"
  have h: "record_present ?r = None"
    by simp
  have pass: "\<not> fails_any_check scenario_env (valid_students_of scenario_db 1 ([] @ ?r # []))
                {738895} ?r"
    by code_simp
  from null_present_skipped [OF h, of scenario_env scenario_db "[]" "[]" scenario_year 1 "{738895}"]
  obtain objs errs where
    res: "validate_and_prepare_records scenario_env scenario_db ([] @ ?r # []) scenario_year 1
            {738895} = Inr (objs, errs)" and
    objs: "objs = []" and
    errs: "\<not> (\<exists>e \<in> set errs. error_index e = Some (length ([] :: attendance_record list)))"
    using pass by auto
  have "validate_and_prepare_records scenario_env scenario_db [?r] scenario_year 1 {738895}
          = Inr ([], [])"
    by code_simp
  then show ?thesis
    using h res by simp
qed

subsection \<open>The validation service without the future-date check\<close>

lemma service_validate_record_clock:
  "service_validate_record (env\<lparr>today_now := t\<rparr>) idx r vs H y
     = service_validate_record env idx r vs H y"
proof -
  have "is_weekend (env\<lparr>today_now := t\<rparr>) = is_weekend env"
    by (intro ext) (simp add: is_weekend_def)
  then show ?thesis
    by (simp add: service_validate_record_def Let_def split: option.splits prod.splits)
qed

lemma service_validate_loop_clock:
  "service_validate_loop (env\<lparr>today_now := t\<rparr>) vs H y idx rs objs errs
     = service_validate_loop env vs H y idx rs objs errs"
  by (induction rs arbitrary: idx objs errs)
     (simp_all add: service_validate_record_clock split: sum.splits option.splits)

text \<open>
  C10. \<open>validate_attendance_records\<close> of the validation service never reads the clock:
  its result is the same whatever today is. A submission dated tomorrow (Friday
  2024-02-02, neither a weekend day nor a holiday) for a student of the school is
  returned as a valid object with no error, while the handler's
  \<open>validate_single_record\<close> rejects the same record as a future date.
\<close>

theorem service_validation_has_no_future_check:
  "validate_attendance_records (env\<lparr>today_now := t\<rparr>) db records y school H
     = validate_attendance_records env db records y school H
   \<and> record_date_obj scenario_env
        \<lparr> record_student_id = Some 1, record_date = Some ''2024-02-02'',
          record_present = Some True \<rparr> = Some 738918
   \<and> today_now scenario_env < 738918
   \<and> validate_attendance_records scenario_env scenario_db
        [\<lparr> record_student_id = Some 1, record_date = Some ''2024-02-02'',
           record_present = Some True \<rparr>] scenario_year 1 {738895}
       = ([\<lparr> attendance_student_id = Some 1, attendance_date = 738918,
              attendance_present = True, attendance_year = 1 \<rparr>], [])
   \<and> validate_single_record scenario_env 0
        \<lparr> record_student_id = Some 1, record_date = Some ''2024-02-02'',
          record_present = Some True \<rparr>
        (valid_students_of scenario_db 1
           [\<lparr> record_student_id = Some 1, record_date = Some ''2024-02-02'',
              record_present = Some True \<rparr>]) {738895} scenario_year
       = Some (FutureDate 0 ''2024-02-02'' 738917)
   \<and> validate_and_prepare_records scenario_env scenario_db
        [\<lparr> record_student_id = Some 1, record_date = Some ''2024-02-02'',
           record_present = Some True \<rparr>] scenario_year 1 {738895}
       = Inr ([], [FutureDate 0 ''2024-02-02'' 738917])"
proof -
  have clock: "validate_attendance_records (env\<lparr>today_now := t\<rparr>) db records y school H
                 = validate_attendance_records env db records y school H"
    by (simp add: validate_attendance_records_def service_validate_loop_clock)
  have ex: "record_date_obj scenario_env
        \<lparr> record_student_id = Some 1, record_date = Some ''2024-02-02'',
          record_present = Some True \<rparr> = Some 738918
   \<and> today_now scenario_env < 738918
   \<and> validate_attendance_records scenario_env scenario_db
        [\<lparr> record_student_id = Some 1, record_date = Some ''2024-02-02'',
           record_present = Some True \<rparr>] scenario_year 1 {738895}
       = ([\<lparr> attendance_student_id = Some 1, attendance_date = 738918,
              attendance_present = True, attendance_year = 1 \<rparr>], [])
   \<and> validate_single_record scenario_env 0
        \<lparr> record_student_id = Some 1, record_date = Some ''2024-02-02'',
          record_present = Some True \<rparr>
        (valid_students_of scenario_db 1
           [\<lparr> record_student_id = Some 1, record_date = Some ''2024-02-02'',
              record_present = Some True \<rparr>]) {738895} scenario_year
       = Some (FutureDate 0 ''2024-02-02'' 738917)
   \<and> validate_and_prepare_records scenario_env scenario_db
        [\<lparr> record_student_id = Some 1, record_date = Some ''2024-02-02'',
           record_present = Some True \<rparr>] scenario_year 1 {738895}
       = Inr ([], [FutureDate 0 ''2024-02-02'' 738917])"
    by code_simp
  show ?thesis
    using clock ex by blast
qed

subsection \<open>The default weekend\<close>

text \<open>
  Where the default applies. When the classroom's \<open>weekend_days\<close> is null, an empty list, an empty string or a
  string that fails to parse as JSON, and also when there is no classroom, the weekend is
  Sunday and Saturday, codes 0 and 6: \<open>parse_weekend_days\<close> returns \<open>[0, 6]\<close>, the weekend
  test of the validation is membership in \<open>{0, 6}\<close>, and the classroom statistics count
  the school days with the weekend \<open>[0, 6]\<close>.
\<close>

theorem default_weekend_is_sunday_saturday:
  assumes "classroom_weekend_days c = JNull \<or> classroom_weekend_days c = JList []
           \<or> classroom_weekend_days c = JStr []
           \<or> (\<exists>s. classroom_weekend_days c = JStr s \<and> json_loads env s = None)"
  shows "parse_weekend_days (json_loads env) (classroom_weekend_days c) = [0, 6]
         \<and> (is_weekend env d (Some c) \<longleftrightarrow> (weekday d + 1) mod 7 \<in> {0, 6})
         \<and> (is_weekend env d None \<longleftrightarrow> (weekday d + 1) mod 7 \<in> {0, 6})
         \<and> (\<forall>r. get_classroom_stats env db c y H today = Some r \<longrightarrow>
               expected_records r =
                 count_school_days (stats_start_date r) (stats_end_date r) [0, 6] H
                 * student_count r)"
proof -
  have p: "parse_weekend_days (json_loads env) (classroom_weekend_days c) = [0, 6]"
    using assms by (auto simp: parse_weekend_days_def)
  have n: "parse_weekend_days (json_loads env) JNull = [0, 6]"
    by (simp add: parse_weekend_days_def)
  have s: "\<forall>r. get_classroom_stats env db c y H today = Some r \<longrightarrow>
               expected_records r =
                 count_school_days (stats_start_date r) (stats_end_date r) [0, 6] H
                 * student_count r"
    by (auto simp: get_classroom_stats_def p Let_def split: prod.splits)
  show ?thesis
    using p n s by (simp add: is_weekend_def Let_def)
qed

text \<open>
  The example classroom with a \<open>weekend_days\<close> text that is not JSON: Sunday 2024-01-07
  is a weekend day, Monday 2024-01-08 is not, and the statistics expect
  \<open>(20 - 5 - 1) * 10 = 140\<close> records.
\<close>

theorem default_weekend_is_sunday_saturday_witness:
  "classroom_weekend_days (scenario_classroom\<lparr>classroom_weekend_days := JStr ''Sunday''\<rparr>)
     = JStr ''Sunday''
   \<and> json_loads scenario_env ''Sunday'' = None
   \<and> parse_weekend_days (json_loads scenario_env)
        (classroom_weekend_days (scenario_classroom\<lparr>classroom_weekend_days := JStr ''Sunday''\<rparr>))
       = [0, 6]
   \<and> is_weekend scenario_env 738892
        (Some (scenario_classroom\<lparr>classroom_weekend_days := JStr ''Sunday''\<rparr>))
   \<and> \<not> is_weekend scenario_env 738893
        (Some (scenario_classroom\<lparr>classroom_weekend_days := JStr ''Sunday''\<rparr>))
   \<and> map_option expected_records
        (get_classroom_stats scenario_env scenario_db
           (scenario_classroom\<lparr>classroom_weekend_days := JStr ''Sunday''\<rparr>)
           scenario_year {738895} 738917) = Some 140"
proof -
  let ?c = "scenario_classroom\<lparr>classroom_weekend_days := JStr ''Sunday''\<rparr>"
  have w: "classroom_weekend_days ?c = JStr ''Sunday''"
    by simp
  have j: "json_loads scenario_env ''Sunday'' = None"
    by (simp add: scenario_env_def)
  have h: "classroom_weekend_days ?c = JNull \<or> classroom_weekend_days ?c = JList []
           \<or> classroom_weekend_days ?c = JStr []
           \<or> (\<exists>s. classroom_weekend_days ?c = JStr s \<and> json_loads scenario_env s = None)"
    using j by simp
  have sun: "(weekday 738892 + 1) mod 7 \<in> {0, 6 :: int}"
    by (simp add: weekday_def)
  have mon: "(weekday 738893 + 1) mod 7 \<notin> {0, 6 :: int}"
    by (simp add: weekday_def)
  have st: "map_option expected_records
        (get_classroom_stats scenario_env scenario_db ?c scenario_year {738895} 738917)
      = Some 140"
    by code_simp
  show ?thesis
    using default_weekend_is_sunday_saturday [OF h, of 738892 scenario_db scenario_year
        "{738895}" 738917]
      default_weekend_is_sunday_saturday [OF h, of 738893 scenario_db scenario_year
        "{738895}" 738917] w j sun mon st
    by simp
qed

text \<open>
  The boundary of the default: a text that parses to the empty JSON array (what the admin
  form stores when no day is ticked) is not empty itself, and gives the empty weekend.
\<close>

lemma parse_weekend_days_text_of_empty_list:
  "json_loads env ''[]'' = Some (JList []) \<Longrightarrow>
     parse_weekend_days (json_loads env) (JStr ''[]'') = []"
  by (simp add: parse_weekend_days_def)

text \<open>
  C9: the code differs from the claim on the empty value that the admin form stores.
  \<^verbatim>\<open>ClassRoomForm.clean_weekend_days\<close> saves a selection of no day as the text
  \<^verbatim>\<open>[]\<close>. The text is not falsy, it parses to the empty list, and \<open>parse_weekend_days\<close>
  returns that list: neither Saturday 2024-01-06 nor Sunday 2024-01-07 is a weekend day
  of such a classroom, a submission for Sunday 2024-01-14 passes the validation, and the
  statistics of the example classroom expect \<open>(20 - 1) * 10 = 190\<close> records. The same
  empty selection stored as the list \<open>[]\<close> gets the default weekend \<open>[0, 6]\<close> and 140
  expected records.
\<close>

theorem empty_weekend_text_is_no_weekend:
  "json_loads (scenario_env\<lparr>json_loads := map_of [(''[]'', JList [])]\<rparr>) ''[]''
     = Some (JList [])
   \<and> parse_weekend_days (map_of [(''[]'', JList [])]) (JStr ''[]'') = []
   \<and> \<not> is_weekend (scenario_env\<lparr>json_loads := map_of [(''[]'', JList [])]\<rparr>) 738891
        (Some (scenario_classroom\<lparr>classroom_weekend_days := JStr ''[]''\<rparr>))
   \<and> \<not> is_weekend (scenario_env\<lparr>json_loads := map_of [(''[]'', JList [])]\<rparr>) 738892
        (Some (scenario_classroom\<lparr>classroom_weekend_days := JStr ''[]''\<rparr>))
   \<and> validate_single_record (scenario_env\<lparr>json_loads := map_of [(''[]'', JList [])]\<rparr>) 0
        \<lparr> record_student_id = Some 1, record_date = Some ''2024-01-14'',
          record_present = Some True \<rparr>
        (valid_students_of
           (scenario_db\<lparr>classrooms :=
              [scenario_classroom\<lparr>classroom_weekend_days := JStr ''[]''\<rparr>]\<rparr>) 1
           [\<lparr> record_student_id = Some 1, record_date = Some ''2024-01-14'',
              record_present = Some True \<rparr>])
        {738895} scenario_year = None
   \<and> map_option expected_records
        (get_classroom_stats (scenario_env\<lparr>json_loads := map_of [(''[]'', JList [])]\<rparr>)
           scenario_db (scenario_classroom\<lparr>classroom_weekend_days := JStr ''[]''\<rparr>)
           scenario_year {738895} 738917) = Some 190
   \<and> parse_weekend_days (map_of [(''[]'', JList [])]) (JList []) = [0, 6]
   \<and> map_option expected_records
        (get_classroom_stats (scenario_env\<lparr>json_loads := map_of [(''[]'', JList [])]\<rparr>)
           scenario_db (scenario_classroom\<lparr>classroom_weekend_days := JList []\<rparr>)
           scenario_year {738895} 738917) = Some 140"
  by code_simp

subsection \<open>Weekly statistics\<close>

declare compute_weekly_loop.simps [simp del]

lemma compute_weekly_loop_windows:
  "compute_weekly_loop db ids n c end_date w stats =
     stats @ map (\<lambda>k. week_entry db ids n end_date (w + k) (c + 7 * int k))
               [0..<nat ((end_date - c + 7) div 7)]"
proof (induction db ids n c end_date w stats rule: compute_weekly_loop.induct)
  case (1 db ids n c end_date w stats)
  show ?case
  proof (cases "c \<le> end_date")
    case False
    then have "(end_date - c + 7) div 7 \<le> 0"
      by presburger
    then show ?thesis
      using False by (simp add: compute_weekly_loop.simps [of db ids n c])
  next
    case True
    let ?we = "min (c + 6) end_date"
    have unfold: "compute_weekly_loop db ids n c end_date w stats =
        compute_weekly_loop db ids n (?we + 1) end_date (w + 1)
          (stats @ [week_entry db ids n end_date w c])"
      using True by (simp add: compute_weekly_loop.simps [of db ids n c] Let_def week_entry_def)
    have ih: "compute_weekly_loop db ids n (?we + 1) end_date (w + 1)
                (stats @ [week_entry db ids n end_date w c]) =
              (stats @ [week_entry db ids n end_date w c]) @
                map (\<lambda>k. week_entry db ids n end_date (w + 1 + k) (?we + 1 + 7 * int k))
                  [0..<nat ((end_date - (?we + 1) + 7) div 7)]"
      using "1.IH" [OF True refl refl refl refl] by (simp add: week_entry_def)
    show ?thesis
    proof (cases "c + 6 \<le> end_date")
      case full: True
      then have we: "?we = c + 6"
        by simp
      define m where "m = nat ((end_date - (c + 6 + 1) + 7) div 7)"
      have cnt: "nat ((end_date - c + 7) div 7) = Suc m"
      proof -
        have "(end_date - c + 7) div 7 = (end_date - (c + 6 + 1) + 7) div 7 + 1"
          by presburger
        moreover have "0 \<le> (end_date - (c + 6 + 1) + 7) div 7"
          using full by presburger
        ultimately show ?thesis
          by (simp add: m_def)
      qed
      have shift: "map (\<lambda>k. week_entry db ids n end_date (w + k) (c + 7 * int k))
                     [0..<Suc m] =
                   week_entry db ids n end_date w c #
                   map (\<lambda>k. week_entry db ids n end_date (w + 1 + k) (c + 6 + 1 + 7 * int k))
                     [0..<m]"
        by (simp add: upt_conv_Cons map_Suc_upt [symmetric] del: upt_Suc)
           (simp add: algebra_simps)
      have "compute_weekly_loop db ids n c end_date w stats =
              (stats @ [week_entry db ids n end_date w c]) @
                map (\<lambda>k. week_entry db ids n end_date (w + 1 + k) (c + 6 + 1 + 7 * int k))
                  [0..<m]"
        using unfold ih by (simp only: we m_def)
      also have "\<dots> = stats @ map (\<lambda>k. week_entry db ids n end_date (w + k) (c + 7 * int k))
                              [0..<Suc m]"
        by (simp only: shift append_assoc append_Cons append_Nil)
      finally show ?thesis
        by (simp only: cnt)
    next
      case short: False
      then have we: "?we = end_date"
        by simp
      have cnt: "nat ((end_date - c + 7) div 7) = Suc 0"
      proof -
        have "(end_date - c + 7) div 7 = 1"
          using True short by presburger
        then show ?thesis
          by simp
      qed
      have rest: "nat ((end_date - (end_date + 1) + 7) div 7) = 0"
        by simp
      have "compute_weekly_loop db ids n c end_date w stats =
              (stats @ [week_entry db ids n end_date w c]) @
                map (\<lambda>k. week_entry db ids n end_date (w + 1 + k) (end_date + 1 + 7 * int k))
                  [0..<0]"
        using unfold ih by (simp only: we rest)
      also have "\<dots> = stats @ map (\<lambda>k. week_entry db ids n end_date (w + k) (c + 7 * int k))
                              [0..<Suc 0]"
        by simp
      finally show ?thesis
        by (simp only: cnt)
    qed
  qed
qed

text \<open>
  C7: the code differs from the claim. On the week from Monday 2024-01-08 to Sunday
  2024-01-14, seven calendar days, with ten students and two marked records, the claim's
  pending estimate is \<open>max 0 (10 * 7 - 2) = 68\<close>; the code reports 58, since it multiplies
  by \<open>(week_end - current).days = 6\<close>. On a range of a single day without records it
  reports 0 pending records for the ten students.
\<close>

theorem weekly_pending_counts_six_days_in_a_week:
  "compute_weekly_statistics scenario_db [1, 2, 3, 4, 5, 6, 7, 8, 9, 10] 10 738893 738899 {}
     = [\<lparr> week_num = 1, week_first = 738893, week_last = 738899, week_present = 1,
          week_total = 2, week_pending = 58 \<rparr>]
   \<and> int (card {738893 .. 738899 :: int}) = 7
   \<and> max 0 (10 * int (card {738893 .. 738899 :: int}) - 2) = 68
   \<and> compute_weekly_statistics scenario_db [1, 2, 3, 4, 5, 6, 7, 8, 9, 10] 10 738894 738894 {}
     = [\<lparr> week_num = 1, week_first = 738894, week_last = 738894, week_present = 0,
          week_total = 0, week_pending = 0 \<rparr>]"
proof -
  have a: "compute_weekly_statistics scenario_db [1, 2, 3, 4, 5, 6, 7, 8, 9, 10] 10
             738893 738899 {}
     = [\<lparr> week_num = 1, week_first = 738893, week_last = 738899, week_present = 1,
          week_total = 2, week_pending = 58 \<rparr>]"
    by code_simp
  have b: "compute_weekly_statistics scenario_db [1, 2, 3, 4, 5, 6, 7, 8, 9, 10] 10
             738894 738894 {}
     = [\<lparr> week_num = 1, week_first = 738894, week_last = 738894, week_present = 0,
          week_total = 0, week_pending = 0 \<rparr>]"
    by code_simp
  show ?thesis
    using a b by simp
qed

subsection \<open>Writing attendance: upsert on the natural key\<close>














subsection \<open>Teacher availability\<close>

lemma available_teachers_loop_eq:
  "available_teachers_loop db date day period ts av un =
     (av @ filter (\<lambda>t. available (get_teacher_availability_for_period db t date day period)) ts,
      un @ map (\<lambda>t. \<lparr> unavailable_teacher = t,
                        unavailable_reason =
                          reason (get_teacher_availability_for_period db t date day period),
                        reason_type =
                          (if has_class (get_teacher_availability_for_period db t date day period)
                             then ''class''
                           else if has_proxy (get_teacher_availability_for_period db t date day period)
                             then ''proxy''
                           else ''absent'') \<rparr>)
             (filter (\<lambda>t. \<not> available (get_teacher_availability_for_period db t date day period))
                ts))"
  by (induction ts arbitrary: av un) (simp_all add: Let_def)

text \<open>
  C5. The availability of a teacher for a slot is decided by the first of three tests
  that matches, in this order: an absence row of the teacher for the date with status
  \<open>absent\<close>; a timetable entry of the teacher for the day and period; a proxy of the
  teacher for the date, day and period with status \<open>assigned\<close> or \<open>completed\<close>. In
  particular an absent teacher is reported absent and not as having a class, whatever
  the timetable says, and the list of unavailable teachers gives every absent teacher
  the reason type \<open>absent\<close>.
\<close>

theorem availability_priority:
  "get_teacher_availability_for_period db t date day period =
     (if \<exists>a \<in> set (teacher_attendances db).
            absence_teacher a = teacher_id t \<and> absence_date a = date
            \<and> absence_status a = ''absent''
      then \<lparr> available = False, reason = Some ''Teacher is absent on this date'',
             has_class = False, has_proxy = False, is_absent = True \<rparr>
      else if \<exists>e \<in> set (timetable_entries db).
                 entry_teacher e = Some (teacher_id t) \<and> entry_day e = day
                 \<and> entry_period e = period
      then \<lparr> available = False,
             reason = Some ''Teacher has a scheduled class at this period'',
             has_class = True, has_proxy = False, is_absent = False \<rparr>
      else if \<exists>p \<in> set (proxies db).
                 proxy_teacher p = teacher_id t \<and> proxy_date p = date \<and> proxy_day p = day
                 \<and> proxy_period p = period
                 \<and> (proxy_status p = ''assigned'' \<or> proxy_status p = ''completed'')
      then \<lparr> available = False,
             reason = Some ''Teacher already has a proxy assigned at this period'',
             has_class = False, has_proxy = True, is_absent = False \<rparr>
      else \<lparr> available = True, reason = None, has_class = False, has_proxy = False,
             is_absent = False \<rparr>)
   \<and> (\<forall>u \<in> set (snd (get_available_teachers_for_period db school date day period ex)).
         (\<exists>a \<in> set (teacher_attendances db).
            absence_teacher a = teacher_id (unavailable_teacher u) \<and> absence_date a = date
            \<and> absence_status a = ''absent'')
         \<longrightarrow> reason_type u = ''absent''
             \<and> unavailable_reason u = Some ''Teacher is absent on this date'')"
proof -
  have one: "get_teacher_availability_for_period db t date day period =
     (if \<exists>a \<in> set (teacher_attendances db).
            absence_teacher a = teacher_id t \<and> absence_date a = date
            \<and> absence_status a = ''absent''
      then \<lparr> available = False, reason = Some ''Teacher is absent on this date'',
             has_class = False, has_proxy = False, is_absent = True \<rparr>
      else if \<exists>e \<in> set (timetable_entries db).
                 entry_teacher e = Some (teacher_id t) \<and> entry_day e = day
                 \<and> entry_period e = period
      then \<lparr> available = False,
             reason = Some ''Teacher has a scheduled class at this period'',
             has_class = True, has_proxy = False, is_absent = False \<rparr>
      else if \<exists>p \<in> set (proxies db).
                 proxy_teacher p = teacher_id t \<and> proxy_date p = date \<and> proxy_day p = day
                 \<and> proxy_period p = period
                 \<and> (proxy_status p = ''assigned'' \<or> proxy_status p = ''completed'')
      then \<lparr> available = False,
             reason = Some ''Teacher already has a proxy assigned at this period'',
             has_class = False, has_proxy = True, is_absent = False \<rparr>
      else \<lparr> available = True, reason = None, has_class = False, has_proxy = False,
             is_absent = False \<rparr>)" for t
    by (simp add: get_teacher_availability_for_period_def Let_def list_ex_iff)
  have two: "reason_type u = ''absent''
             \<and> unavailable_reason u = Some ''Teacher is absent on this date''"
    if mem: "u \<in> set (snd (get_available_teachers_for_period db school date day period ex))"
      and ab: "\<exists>a \<in> set (teacher_attendances db).
            absence_teacher a = teacher_id (unavailable_teacher u) \<and> absence_date a = date
            \<and> absence_status a = ''absent''" for u
  proof -
    from mem obtain t' where
      u: "u = \<lparr> unavailable_teacher = t',
                unavailable_reason =
                  reason (get_teacher_availability_for_period db t' date day period),
                reason_type =
                  (if has_class (get_teacher_availability_for_period db t' date day period)
                     then ''class''
                   else if has_proxy (get_teacher_availability_for_period db t' date day period)
                     then ''proxy''
                   else ''absent'') \<rparr>"
      by (auto simp: get_available_teachers_for_period_def available_teachers_loop_eq Let_def)
    have "get_teacher_availability_for_period db t' date day period =
            \<lparr> available = False, reason = Some ''Teacher is absent on this date'',
              has_class = False, has_proxy = False, is_absent = True \<rparr>"
      using ab unfolding u one [of t'] by simp
    then show ?thesis
      unfolding u by simp
  qed
  show ?thesis
    using one [of t] two by blast
qed

text \<open>
  In the example school teacher 1 is absent and has a class at the slot: the answer is
  absent, and the list reports teacher 1 with the reason type \<open>absent\<close>.
\<close>

theorem availability_priority_witness:
  "get_teacher_availability_for_period scenario_timetable
       \<lparr> teacher_id = 1, teacher_school = 1 \<rparr> 738893 ''monday'' 2
     = \<lparr> available = False, reason = Some ''Teacher is absent on this date'',
         has_class = False, has_proxy = False, is_absent = True \<rparr>
   \<and> list_ex (\<lambda>e. entry_teacher e = Some 1 \<and> entry_day e = ''monday'' \<and> entry_period e = 2)
        (timetable_entries scenario_timetable)
   \<and> map (\<lambda>u. (teacher_id (unavailable_teacher u), reason_type u))
        (snd (get_available_teachers_for_period scenario_timetable 1 738893 ''monday'' 2 None))
     = [(1, ''absent''), (2, ''class''), (3, ''proxy'')]"
proof -
  let ?t = "\<lparr> teacher_id = 1, teacher_school = 1 \<rparr>"
  have ab: "\<exists>a \<in> set (teacher_attendances scenario_timetable).
            absence_teacher a = teacher_id ?t \<and> absence_date a = 738893
            \<and> absence_status a = ''absent''"
    by (simp add: scenario_timetable_def scenario_absence_def)
  have cl: "list_ex (\<lambda>e. entry_teacher e = Some 1 \<and> entry_day e = ''monday''
                          \<and> entry_period e = 2) (timetable_entries scenario_timetable)"
    by code_simp
  have ls: "map (\<lambda>u. (teacher_id (unavailable_teacher u), reason_type u))
        (snd (get_available_teachers_for_period scenario_timetable 1 738893 ''monday'' 2 None))
     = [(1, ''absent''), (2, ''class''), (3, ''proxy'')]"
    by code_simp
  show ?thesis
    using availability_priority [of scenario_timetable ?t 738893 "''monday''" 2 1 None]
      ab cl ls
    by simp
qed

subsection \<open>The status of a proxy\<close>

lemma objects_get_Inr:
  "objects_get matches rows = Inr row \<Longrightarrow> row \<in> set rows \<and> matches row"
proof -
  assume a: "objects_get matches rows = Inr row"
  then have "filter matches rows = [row]"
    by (auto simp: objects_get_def split: list.splits)
  then have "row \<in> set (filter matches rows)"
    by simp
  then show ?thesis
    by simp
qed

lemma objects_get_by_id:
  assumes "distinct (map proxy_id rows)" and "p \<in> set rows"
  shows "filter (\<lambda>q. proxy_id q = proxy_id p) rows = [p]"
  using assms
proof (induction rows)
  case Nil
  then show ?case by simp
next
  case (Cons r rows)
  show ?case
  proof (cases "p = r")
    case True
    have "proxy_id r \<notin> set (map proxy_id rows)"
      using Cons.prems by simp
    then have "\<forall>x \<in> set rows. proxy_id x \<noteq> proxy_id r"
      by (metis image_eqI set_map)
    then have "filter (\<lambda>q. proxy_id q = proxy_id r) rows = []"
      by (simp add: filter_empty_conv)
    then show ?thesis
      using True by simp
  next
    case False
    then have mem: "p \<in> set rows"
      using Cons.prems by simp
    have "proxy_id r \<notin> set (map proxy_id rows)"
      using Cons.prems by simp
    then have "proxy_id r \<noteq> proxy_id p"
      using mem by (metis image_eqI set_map)
    then show ?thesis
      using Cons mem by simp
  qed
qed

lemma find_by_id_mem:
  "find (\<lambda>q. proxy_id q = x) rows = Some p \<Longrightarrow> p \<in> set rows \<and> proxy_id p = x"
  by (induction rows) (auto split: if_splits)

lemma find_by_id_None:
  "find (\<lambda>q. proxy_id q = x) rows = None \<longleftrightarrow> x \<notin> set (map proxy_id rows)"
  by (induction rows) auto

lemma find_save:
  "find (\<lambda>q. proxy_id q = x) (map (\<lambda>q. if proxy_id q = proxy_id p then p else q) rows) =
     (if x = proxy_id p then map_option (\<lambda>_. p) (find (\<lambda>q. proxy_id q = x) rows)
      else find (\<lambda>q. proxy_id q = x) rows)"
  by (induction rows) auto

lemma proxy_status_of_save:
  "proxy_status_of (save_proxy p db) x =
     (if x = proxy_id p
      then map_option (\<lambda>_. proxy_status p) (proxy_status_of db x)
      else proxy_status_of db x)"
  by (simp add: proxy_status_of_def save_proxy_def find_save option.map_comp comp_def)

lemma proxy_status_of_mem:
  "p \<in> set (proxies db) \<Longrightarrow> proxy_status_of db (proxy_id p) \<noteq> None"
  by (simp add: proxy_status_of_def find_by_id_None)

lemma save_proxy_ids:
  "map proxy_id (proxies (save_proxy p db)) = map proxy_id (proxies db)"
  by (simp add: save_proxy_def comp_def cong: map_cong)

lemma save_proxy_wf:
  "proxies_wf db \<Longrightarrow> proxies_wf (save_proxy p db)"
proof -
  assume wf: "proxies_wf db"
  have seq: "proxy_id_seq (save_proxy p db) = proxy_id_seq db"
    by (simp add: save_proxy_def)
  have "list_all (\<lambda>q. proxy_id q < proxy_id_seq db) (proxies (save_proxy p db))
          \<longleftrightarrow> (\<forall>i \<in> set (map proxy_id (proxies (save_proxy p db))). i < proxy_id_seq db)"
    by (simp add: list_all_iff)
  also have "\<dots> \<longleftrightarrow> (\<forall>i \<in> set (map proxy_id (proxies db)). i < proxy_id_seq db)"
    by (simp only: save_proxy_ids)
  also have "\<dots> \<longleftrightarrow> list_all (\<lambda>q. proxy_id q < proxy_id_seq db) (proxies db)"
    by (simp add: list_all_iff)
  finally show ?thesis
    using wf unfolding proxies_wf_def seq save_proxy_ids by simp
qed

text \<open>What one operation does to the status of the proxy of each id.\<close>

lemma cancel_proxy_status:
  "proxy_status_of (apply_op db (Cancel pid)) x =
     (if x = pid \<and> (\<exists>p. objects_get (\<lambda>p. proxy_id p = pid) (proxies db) = Inr p)
      then Some ''cancelled'' else proxy_status_of db x)"
proof (cases "objects_get (\<lambda>p. proxy_id p = pid) (proxies db)")
  case (Inl e)
  then show ?thesis
    by (cases e) (simp_all add: cancel_proxy_def)
next
  case (Inr p)
  have p: "p \<in> set (proxies db)" "proxy_id p = pid"
    using objects_get_Inr [OF Inr] by simp_all
  show ?thesis
    using Inr p proxy_status_of_mem [OF p(1)]
    by (auto simp: cancel_proxy_def proxy_status_of_save)
qed

lemma complete_proxy_status:
  "proxy_status_of (apply_op db (Complete pid school now)) x =
     (if x = pid \<and> (\<exists>p. objects_get
             (\<lambda>p. proxy_id p = pid
                   \<and> list_ex (\<lambda>c. classroom_id c = proxy_classroom p
                                    \<and> classroom_school c = school)
                        (school_classrooms db)) (proxies db) = Inr p)
      then Some ''completed'' else proxy_status_of db x)"
proof (cases "objects_get
             (\<lambda>p. proxy_id p = pid
                   \<and> list_ex (\<lambda>c. classroom_id c = proxy_classroom p
                                    \<and> classroom_school c = school)
                        (school_classrooms db)) (proxies db)")
  case (Inl e)
  then show ?thesis
    by (cases e) (simp_all add: complete_proxy_def)
next
  case (Inr p)
  have p: "p \<in> set (proxies db)" "proxy_id p = pid"
    using objects_get_Inr [OF Inr] by simp_all
  show ?thesis
    using Inr p proxy_status_of_mem [OF p(1)]
    by (auto simp: complete_proxy_def proxy_status_of_save Let_def)
qed

lemma find_append_one:
  "find P (rows @ [c]) =
     (case find P rows of Some r \<Rightarrow> Some r | None \<Rightarrow> if P c then Some c else None)"
  by (induction rows) auto

lemma proxies_wf_fresh:
  "proxies_wf db \<Longrightarrow> proxy_status_of db (proxy_id_seq db) = None"
proof -
  assume "proxies_wf db"
  then have "\<forall>p \<in> set (proxies db). proxy_id p < proxy_id_seq db"
    by (simp add: proxies_wf_def list_all_iff)
  then have "proxy_id_seq db \<notin> set (map proxy_id (proxies db))"
    by auto
  then show ?thesis
    by (simp add: proxy_status_of_def find_by_id_None)
qed

lemma assign_proxy_status:
  assumes wf: "proxies_wf db"
  shows "proxy_status_of (apply_op db (Assign ab per room sub user subj)) x =
     (case objects_get (\<lambda>p. proxy_absence p = absence_id ab
                             \<and> proxy_classroom p = classroom_id room
                             \<and> proxy_day p = day_name (absence_date ab)
                             \<and> proxy_period p = per) (proxies db) of
        Inr p \<Rightarrow> if x = proxy_id p then Some ''assigned'' else proxy_status_of db x
      | Inl DoesNotExist \<Rightarrow>
          if x = proxy_id_seq db then Some ''assigned'' else proxy_status_of db x
      | Inl MultipleObjectsReturned \<Rightarrow> proxy_status_of db x)"
proof (cases "objects_get (\<lambda>p. proxy_absence p = absence_id ab
                             \<and> proxy_classroom p = classroom_id room
                             \<and> proxy_day p = day_name (absence_date ab)
                             \<and> proxy_period p = per) (proxies db)")
  case (Inr p)
  have p: "p \<in> set (proxies db)"
    using objects_get_Inr [OF Inr] by simp
  show ?thesis
    using Inr proxy_status_of_mem [OF p]
    by (auto simp: assign_proxy_def proxy_status_of_save Let_def)
next
  case (Inl e)
  show ?thesis
  proof (cases e)
    case MultipleObjectsReturned
    then show ?thesis
      using Inl by (simp add: assign_proxy_def Let_def)
  next
    case DoesNotExist
    have fresh: "find (\<lambda>q. proxy_id q = proxy_id_seq db) (proxies db) = None"
      using proxies_wf_fresh [OF wf] by (simp add: proxy_status_of_def)
    show ?thesis
      using Inl DoesNotExist fresh
      by (auto simp: assign_proxy_def Let_def proxy_status_of_def find_append_one
          split: option.splits)
  qed
qed

lemma apply_op_wf:
  assumes wf: "proxies_wf db"
  shows "proxies_wf (apply_op db op)"
proof (cases op)
  case (Cancel pid)
  then show ?thesis
    using wf save_proxy_wf
    by (auto simp: cancel_proxy_def split: sum.splits orm_exception.splits)
next
  case (Complete pid school now)
  then show ?thesis
    using wf save_proxy_wf
    by (auto simp: complete_proxy_def Let_def split: sum.splits orm_exception.splits)
next
  case (Assign ab per room sub user subj)
  have created: "proxies_wf (db\<lparr> proxies := proxies db @ [c], proxy_id_seq := proxy_id_seq db + 1 \<rparr>)"
    if "proxy_id c = proxy_id_seq db" for c
  proof -
    have lt: "\<forall>p \<in> set (proxies db). proxy_id p < proxy_id_seq db"
      using wf by (simp add: proxies_wf_def list_all_iff)
    then have "proxy_id_seq db \<notin> set (map proxy_id (proxies db))"
      by auto
    then show ?thesis
      using wf lt that by (auto simp: proxies_wf_def list_all_iff)
  qed
  show ?thesis
    using Assign wf save_proxy_wf created
    by (auto simp: assign_proxy_def Let_def split: sum.splits orm_exception.splits)
qed

lemma apply_op_status:
  assumes wf: "proxies_wf db"
  shows "proxy_status_of (apply_op db op) x = proxy_status_of db x
         \<or> proxy_status_of (apply_op db op) x = Some (written_status op)"
proof (cases op)
  case (Cancel pid)
  then show ?thesis
    by (simp add: cancel_proxy_status del: apply_op.simps)
next
  case (Complete pid school now)
  then show ?thesis
    by (simp add: complete_proxy_status del: apply_op.simps)
next
  case (Assign ab per room sub user subj)
  then show ?thesis
    by (simp add: assign_proxy_status [OF wf] del: apply_op.simps
        split: sum.splits orm_exception.splits)
qed

lemma apply_op_created:
  assumes wf: "proxies_wf db" and none: "proxy_status_of db x = None"
  shows "proxy_status_of (apply_op db op) x \<in> {None, Some ''assigned''}"
proof (cases op)
  case (Cancel pid)
  have "\<not> (x = pid \<and> (\<exists>p. objects_get (\<lambda>p. proxy_id p = pid) (proxies db) = Inr p))"
  proof
    assume "x = pid \<and> (\<exists>p. objects_get (\<lambda>p. proxy_id p = pid) (proxies db) = Inr p)"
    then obtain p where "x = pid" and "objects_get (\<lambda>p. proxy_id p = pid) (proxies db) = Inr p"
      by blast
    then have "p \<in> set (proxies db)" and "proxy_id p = x"
      using objects_get_Inr [of "\<lambda>p. proxy_id p = pid" "proxies db" p] by simp_all
    then show False
      using proxy_status_of_mem [of p db] none by simp
  qed
  then show ?thesis
    using Cancel none by (simp add: cancel_proxy_status del: apply_op.simps)
next
  case (Complete pid school now)
  let ?m = "\<lambda>p. proxy_id p = pid
                   \<and> list_ex (\<lambda>c. classroom_id c = proxy_classroom p
                                    \<and> classroom_school c = school)
                        (school_classrooms db)"
  have "\<not> (x = pid \<and> (\<exists>p. objects_get ?m (proxies db) = Inr p))"
  proof
    assume "x = pid \<and> (\<exists>p. objects_get ?m (proxies db) = Inr p)"
    then obtain p where "x = pid" and "objects_get ?m (proxies db) = Inr p"
      by blast
    then have "p \<in> set (proxies db)" and "proxy_id p = x"
      using objects_get_Inr [of ?m "proxies db" p] by simp_all
    then show False
      using proxy_status_of_mem [of p db] none by simp
  qed
  then show ?thesis
    using Complete none by (simp add: complete_proxy_status del: apply_op.simps)
next
  case (Assign ab per room sub user subj)
  let ?m = "\<lambda>p. proxy_absence p = absence_id ab
                             \<and> proxy_classroom p = classroom_id room
                             \<and> proxy_day p = day_name (absence_date ab)
                             \<and> proxy_period p = per"
  show ?thesis
  proof (cases "objects_get ?m (proxies db)")
    case (Inr p)
    then have "p \<in> set (proxies db)"
      using objects_get_Inr [of ?m "proxies db" p] by simp
    then have "x \<noteq> proxy_id p"
      using proxy_status_of_mem [of p db] none by auto
    then show ?thesis
      using Assign Inr none by (simp add: assign_proxy_status [OF wf] del: apply_op.simps)
  next
    case (Inl e)
    then show ?thesis
      using Assign none
      by (cases e) (simp_all add: assign_proxy_status [OF wf] del: apply_op.simps)
  qed
qed

lemma run_ops_wf:
  "proxies_wf db \<Longrightarrow> proxies_wf (run_ops db ops)"
  unfolding run_ops_def
  by (induction ops arbitrary: db) (simp_all add: apply_op_wf del: apply_op.simps)

lemma run_ops_status:
  "proxies_wf db \<Longrightarrow>
     proxy_status_of (run_ops db ops) x
       \<in> {proxy_status_of db x, Some ''assigned'', Some ''completed'', Some ''cancelled''}"
proof (induction ops arbitrary: db)
  case Nil
  then show ?case by (simp add: run_ops_def)
next
  case (Cons op ops)
  have step: "proxy_status_of (apply_op db op) x
                \<in> {proxy_status_of db x, Some ''assigned'', Some ''completed'', Some ''cancelled''}"
    using apply_op_status [OF Cons.prems, of op x] by (cases op) auto
  have "proxy_status_of (run_ops (apply_op db op) ops) x
          \<in> {proxy_status_of (apply_op db op) x, Some ''assigned'', Some ''completed'',
              Some ''cancelled''}"
    using Cons.IH [OF apply_op_wf [OF Cons.prems]] .
  then show ?case
    using step by (auto simp: run_ops_def simp del: apply_op.simps)
qed

text \<open>Rows of the same id are the same row when the ids are distinct.\<close>

lemma same_id_same_row:
  assumes "distinct (map proxy_id rows)" and "p \<in> set rows" and "q \<in> set rows"
    and "proxy_id q = proxy_id p"
  shows "q = p"
  using assms by (auto simp: distinct_map dest: inj_onD)

lemma update_row_by_id:
  assumes d: "distinct (map proxy_id rows)" and mem: "p \<in> set rows" and ok: "extra p"
    and same: "proxy_id (f p) = proxy_id p"
  shows "map (\<lambda>q. if proxy_id q = proxy_id (f p) then f p else q) rows
           = map (\<lambda>q. if proxy_id q = proxy_id p \<and> extra q then f q else q) rows"
proof (rule map_cong [OF refl])
  fix q assume q: "q \<in> set rows"
  show "(if proxy_id q = proxy_id (f p) then f p else q)
          = (if proxy_id q = proxy_id p \<and> extra q then f q else q)"
  proof (cases "proxy_id q = proxy_id p")
    case True
    then have "q = p"
      using same_id_same_row [OF d mem q] by simp
    then show ?thesis
      using ok same by simp
  next
    case False
    then show ?thesis
      using same by simp
  qed
qed

lemma no_row_of_id:
  assumes "filter (\<lambda>q. proxy_id q = pid \<and> extra q) rows = []"
  shows "map (\<lambda>q. if proxy_id q = pid \<and> extra q then f q else q) rows = rows"
proof -
  have "\<forall>q \<in> set rows. \<not> (proxy_id q = pid \<and> extra q)"
    using assms by (simp add: filter_empty_conv)
  then show ?thesis
    by (intro map_idI) auto
qed

lemma objects_get_by_id_cases:
  assumes wf: "proxies_wf db"
  shows "filter (\<lambda>q. proxy_id q = pid \<and> extra q) (proxies db) = []
         \<or> (\<exists>p \<in> set (proxies db). proxy_id p = pid \<and> extra p
               \<and> filter (\<lambda>q. proxy_id q = pid \<and> extra q) (proxies db) = [p])"
proof (cases "\<exists>p \<in> set (proxies db). proxy_id p = pid \<and> extra p")
  case False
  then show ?thesis
    by (auto simp: filter_empty_conv)
next
  case True
  then obtain p where p: "p \<in> set (proxies db)" "proxy_id p = pid" "extra p"
    by blast
  have "filter (\<lambda>q. proxy_id q = proxy_id p) (proxies db) = [p]"
    using wf p(1) by (simp add: proxies_wf_def objects_get_by_id)
  then have "filter extra (filter (\<lambda>q. proxy_id q = proxy_id p) (proxies db)) = [p]"
    using p(3) by simp
  then have "filter (\<lambda>q. proxy_id q = pid \<and> extra q) (proxies db) = [p]"
    using p(2) by (simp only: filter_filter)
  then show ?thesis
    using p by blast
qed

text \<open>The store after each operation, row by row.\<close>

lemma cancel_proxy_rows:
  assumes wf: "proxies_wf db"
  shows "apply_op db (Cancel pid) =
           db\<lparr>proxies := map (\<lambda>q. if proxy_id q = pid
                                    then q\<lparr>proxy_status := ''cancelled''\<rparr> else q)
                            (proxies db)\<rparr>"
proof -
  let ?f = "\<lambda>q. q\<lparr>proxy_status := ''cancelled''\<rparr>"
  from objects_get_by_id_cases [OF wf, of pid "\<lambda>_. True"]
  consider (none) "filter (\<lambda>q. proxy_id q = pid) (proxies db) = []"
    | (one) p where "p \<in> set (proxies db)" "proxy_id p = pid"
        "filter (\<lambda>q. proxy_id q = pid) (proxies db) = [p]"
    by auto
  then show ?thesis
  proof cases
    case none
    then show ?thesis
      using no_row_of_id [of pid "\<lambda>_. True" "proxies db" ?f]
      by (simp add: cancel_proxy_def objects_get_def)
  next
    case one
    have d: "distinct (map proxy_id (proxies db))"
      using wf by (simp add: proxies_wf_def)
    have "map (\<lambda>q. if proxy_id q = proxy_id (?f p) then ?f p else q) (proxies db)
            = map (\<lambda>q. if proxy_id q = proxy_id p \<and> True then ?f q else q) (proxies db)"
      by (rule update_row_by_id [OF d one(1)]) simp_all
    then show ?thesis
      using one by (simp add: cancel_proxy_def objects_get_def save_proxy_def)
  qed
qed

lemma complete_proxy_rows:
  assumes wf: "proxies_wf db"
  shows "apply_op db (Complete pid school now) =
           db\<lparr>proxies :=
                map (\<lambda>q. if proxy_id q = pid
                             \<and> list_ex (\<lambda>c. classroom_id c = proxy_classroom q
                                              \<and> classroom_school c = school)
                                  (school_classrooms db)
                          then q\<lparr>proxy_status := ''completed'',
                                 proxy_completed_at := Some now\<rparr>
                          else q)
                  (proxies db)\<rparr>"
proof -
  let ?f = "\<lambda>q. q\<lparr>proxy_status := ''completed'', proxy_completed_at := Some now\<rparr>"
  let ?in = "\<lambda>q. list_ex (\<lambda>c. classroom_id c = proxy_classroom q \<and> classroom_school c = school)
                    (school_classrooms db)"
  from objects_get_by_id_cases [OF wf, of pid ?in]
  consider (none) "filter (\<lambda>q. proxy_id q = pid \<and> ?in q) (proxies db) = []"
    | (one) p where "p \<in> set (proxies db)" "proxy_id p = pid" "?in p"
        "filter (\<lambda>q. proxy_id q = pid \<and> ?in q) (proxies db) = [p]"
    by auto
  then show ?thesis
  proof cases
    case none
    then show ?thesis
      using no_row_of_id [of pid ?in "proxies db" ?f]
      by (simp add: complete_proxy_def objects_get_def)
  next
    case one
    have d: "distinct (map proxy_id (proxies db))"
      using wf by (simp add: proxies_wf_def)
    have "map (\<lambda>q. if proxy_id q = proxy_id (?f p) then ?f p else q) (proxies db)
            = map (\<lambda>q. if proxy_id q = proxy_id p \<and> ?in q then ?f q else q) (proxies db)"
      by (rule update_row_by_id [OF d one(1)]) (simp_all add: one(3))
    then show ?thesis
      using one by (simp add: complete_proxy_def objects_get_def save_proxy_def Let_def)
  qed
qed

lemma assign_proxy_rows:
  assumes wf: "proxies_wf db"
  shows "apply_op db (Assign ab per room sub user subj) =
     (case filter (\<lambda>p. proxy_absence p = absence_id ab
                       \<and> proxy_classroom p = classroom_id room
                       \<and> proxy_day p = day_name (absence_date ab)
                       \<and> proxy_period p = per) (proxies db) of
        [] \<Rightarrow>
          db\<lparr> proxies := proxies db @
                 [\<lparr> proxy_id = proxy_id_seq db,
                    proxy_absence = absence_id ab,
                    proxy_classroom = classroom_id room,
                    proxy_day = day_name (absence_date ab),
                    proxy_period = per,
                    proxy_original_teacher = absence_teacher ab,
                    proxy_teacher = teacher_id sub,
                    proxy_subject = subj,
                    proxy_date = absence_date ab,
                    proxy_status = ''assigned'',
                    proxy_reason = [],
                    proxy_assigned_by = Some user,
                    proxy_completed_at = None \<rparr>],
              proxy_id_seq := proxy_id_seq db + 1 \<rparr>
      | [p] \<Rightarrow>
          db\<lparr> proxies :=
                map (\<lambda>q. if proxy_id q = proxy_id p
                          then q\<lparr> proxy_original_teacher := absence_teacher ab,
                                  proxy_teacher := teacher_id sub,
                                  proxy_subject := subj,
                                  proxy_date := absence_date ab,
                                  proxy_status := ''assigned'',
                                  proxy_assigned_by := Some user \<rparr>
                          else q)
                  (proxies db) \<rparr>
      | _ \<Rightarrow> db)"
proof -
  let ?slot = "\<lambda>p. proxy_absence p = absence_id ab
                       \<and> proxy_classroom p = classroom_id room
                       \<and> proxy_day p = day_name (absence_date ab)
                       \<and> proxy_period p = per"
  let ?f = "\<lambda>q. q\<lparr> proxy_original_teacher := absence_teacher ab,
                                  proxy_teacher := teacher_id sub,
                                  proxy_subject := subj,
                                  proxy_date := absence_date ab,
                                  proxy_status := ''assigned'',
                                  proxy_assigned_by := Some user \<rparr>"
  show ?thesis
  proof (cases "filter ?slot (proxies db)")
    case Nil
    then show ?thesis
      by (simp add: assign_proxy_def objects_get_def Let_def)
  next
    case (Cons p rest)
    show ?thesis
    proof (cases rest)
      case (Cons p' rest')
      then show ?thesis
        using \<open>filter ?slot (proxies db) = p # rest\<close>
        by (simp add: assign_proxy_def objects_get_def Let_def)
    next
      case Nil
      then have one: "filter ?slot (proxies db) = [p]"
        using \<open>filter ?slot (proxies db) = p # rest\<close> by simp
      then have "p \<in> set (filter ?slot (proxies db))"
        by simp
      then have mem: "p \<in> set (proxies db)"
        by simp
      have d: "distinct (map proxy_id (proxies db))"
        using wf by (simp add: proxies_wf_def)
      have "map (\<lambda>q. if proxy_id q = proxy_id (?f p) then ?f p else q) (proxies db)
              = map (\<lambda>q. if proxy_id q = proxy_id p \<and> True then ?f q else q) (proxies db)"
        by (rule update_row_by_id [OF d mem]) simp_all
      then show ?thesis
        using one by (simp add: assign_proxy_def objects_get_def save_proxy_def Let_def)
    qed
  qed
qed

lemma objects_get_existing_id:
  assumes wf: "proxies_wf db" and mem: "p \<in> set (proxies db)" and ok: "extra p"
  shows "objects_get (\<lambda>q. proxy_id q = proxy_id p \<and> extra q) (proxies db) = Inr p"
proof -
  have "filter (\<lambda>q. proxy_id q = proxy_id p) (proxies db) = [p]"
    using wf mem by (simp add: proxies_wf_def objects_get_by_id)
  then have "filter extra (filter (\<lambda>q. proxy_id q = proxy_id p) (proxies db)) = [p]"
    using ok by simp
  then have "filter (\<lambda>q. proxy_id q = proxy_id p \<and> extra q) (proxies db) = [p]"
    by (simp only: filter_filter)
  then show ?thesis
    by (simp add: objects_get_def)
qed

text \<open>
  C6 as stated fails: no operation looks at the current status. In the example school
  the proxy created by the assignment (id 2, status \<open>assigned\<close>) is completed, then
  cancelled (\<open>completed\<close> to \<open>cancelled\<close>), then completed again (\<open>cancelled\<close> to
  \<open>completed\<close>), then assigned again (\<open>completed\<close> to \<open>assigned\<close>).
\<close>

theorem proxy_status_leaves_final_states_counterexample:
  "proxy_status_of (run_ops scenario_timetable [scenario_assign]) 2 = Some ''assigned''
   \<and> proxy_status_of (run_ops scenario_timetable [scenario_assign, Complete 2 1 100]) 2
       = Some ''completed''
   \<and> proxy_status_of (run_ops scenario_timetable [scenario_assign, Complete 2 1 100, Cancel 2]) 2
       = Some ''cancelled''
   \<and> proxy_status_of
        (run_ops scenario_timetable
           [scenario_assign, Complete 2 1 100, Cancel 2, Complete 2 1 200]) 2
       = Some ''completed''
   \<and> proxy_status_of
        (run_ops scenario_timetable
           [scenario_assign, Complete 2 1 100, Cancel 2, Complete 2 1 200, scenario_assign]) 2
       = Some ''assigned''"
  by code_simp

text \<open>
  C6, amended. On a store with distinct proxy ids, each operation is determined row by
  row and none consults the current status. Cancel sets the status of the proxy of the
  given id to \<open>cancelled\<close>; complete sets the status of the proxy of the given id, when
  its classroom belongs to the user's school, to \<open>completed\<close> and stamps the time;
  assign creates one proxy in status \<open>assigned\<close> when the slot has none, and resets the
  one proxy of the slot to \<open>assigned\<close> when it has one. Every other row, and every other
  field of the store, is left as it was. Hence a proxy that an operation creates starts in
  status \<open>assigned\<close> and only an assignment creates one; an operation leaves a status as
  it was or sets it to the one status it writes; and after any sequence of operations a
  status is the initial one or one of the three, whatever the status was before.
\<close>

theorem proxy_status_written_unconditionally:
  assumes wf: "proxies_wf db"
  shows "proxies_wf (run_ops db ops)
   \<and> (\<forall>x. proxy_status_of (run_ops db ops) x
            \<in> {proxy_status_of db x, Some ''assigned'', Some ''completed'', Some ''cancelled''})
   \<and> (\<forall>x. proxy_status_of (apply_op db op) x = proxy_status_of db x
           \<or> proxy_status_of (apply_op db op) x = Some (written_status op))
   \<and> (\<forall>x. proxy_status_of db x = None \<longrightarrow>
           proxy_status_of (apply_op db op) x \<in> {None, Some ''assigned''})
   \<and> (\<forall>p \<in> set (proxies db).
         proxy_status_of (apply_op db (Cancel (proxy_id p))) (proxy_id p) = Some ''cancelled'')
   \<and> (\<forall>p \<in> set (proxies db).
         list_ex (\<lambda>c. classroom_id c = proxy_classroom p \<and> classroom_school c = school)
           (school_classrooms db) \<longrightarrow>
         proxy_status_of (apply_op db (Complete (proxy_id p) school now)) (proxy_id p)
           = Some ''completed'')
   \<and> (\<forall>p. objects_get (\<lambda>p. proxy_absence p = absence_id ab
                             \<and> proxy_classroom p = classroom_id room
                             \<and> proxy_day p = day_name (absence_date ab)
                             \<and> proxy_period p = per) (proxies db) = Inr p \<longrightarrow>
         proxy_status_of (apply_op db (Assign ab per room sub user subj)) (proxy_id p)
           = Some ''assigned'')
   \<and> apply_op db (Cancel pid) =
       db\<lparr>proxies := map (\<lambda>q. if proxy_id q = pid
                                then q\<lparr>proxy_status := ''cancelled''\<rparr> else q)
                        (proxies db)\<rparr>
   \<and> apply_op db (Complete pid school now) =
       db\<lparr>proxies :=
            map (\<lambda>q. if proxy_id q = pid
                         \<and> list_ex (\<lambda>c. classroom_id c = proxy_classroom q
                                          \<and> classroom_school c = school)
                              (school_classrooms db)
                      then q\<lparr>proxy_status := ''completed'',
                             proxy_completed_at := Some now\<rparr>
                      else q)
              (proxies db)\<rparr>
   \<and> apply_op db (Assign ab per room sub user subj) =
       (case filter (\<lambda>p. proxy_absence p = absence_id ab
                         \<and> proxy_classroom p = classroom_id room
                         \<and> proxy_day p = day_name (absence_date ab)
                         \<and> proxy_period p = per) (proxies db) of
          [] \<Rightarrow>
            db\<lparr> proxies := proxies db @
                   [\<lparr> proxy_id = proxy_id_seq db,
                      proxy_absence = absence_id ab,
                      proxy_classroom = classroom_id room,
                      proxy_day = day_name (absence_date ab),
                      proxy_period = per,
                      proxy_original_teacher = absence_teacher ab,
                      proxy_teacher = teacher_id sub,
                      proxy_subject = subj,
                      proxy_date = absence_date ab,
                      proxy_status = ''assigned'',
                      proxy_reason = [],
                      proxy_assigned_by = Some user,
                      proxy_completed_at = None \<rparr>],
                proxy_id_seq := proxy_id_seq db + 1 \<rparr>
        | [p] \<Rightarrow>
            db\<lparr> proxies :=
                  map (\<lambda>q. if proxy_id q = proxy_id p
                            then q\<lparr> proxy_original_teacher := absence_teacher ab,
                                    proxy_teacher := teacher_id sub,
                                    proxy_subject := subj,
                                    proxy_date := absence_date ab,
                                    proxy_status := ''assigned'',
                                    proxy_assigned_by := Some user \<rparr>
                            else q)
                    (proxies db) \<rparr>
        | _ \<Rightarrow> db)"
proof -
  have cancel: "proxy_status_of (apply_op db (Cancel (proxy_id p))) (proxy_id p)
                  = Some ''cancelled''" if "p \<in> set (proxies db)" for p
    using objects_get_existing_id [OF wf that, of "\<lambda>_. True"]
    by (simp add: cancel_proxy_status del: apply_op.simps)
  have complete: "proxy_status_of (apply_op db (Complete (proxy_id p) school now)) (proxy_id p)
                    = Some ''completed''"
    if "p \<in> set (proxies db)"
      and "list_ex (\<lambda>c. classroom_id c = proxy_classroom p \<and> classroom_school c = school)
             (school_classrooms db)" for p
    using objects_get_existing_id [OF wf that(1),
        of "\<lambda>p. list_ex (\<lambda>c. classroom_id c = proxy_classroom p \<and> classroom_school c = school)
                  (school_classrooms db)"] that(2)
    by (simp add: complete_proxy_status del: apply_op.simps)
  have assign: "proxy_status_of (apply_op db (Assign ab per room sub user subj)) (proxy_id p)
                  = Some ''assigned''"
    if "objects_get (\<lambda>p. proxy_absence p = absence_id ab
                             \<and> proxy_classroom p = classroom_id room
                             \<and> proxy_day p = day_name (absence_date ab)
                             \<and> proxy_period p = per) (proxies db) = Inr p" for p
    using that by (simp add: assign_proxy_status [OF wf] del: apply_op.simps)
  have statuses: "proxies_wf (run_ops db ops)
   \<and> (\<forall>x. proxy_status_of (run_ops db ops) x
            \<in> {proxy_status_of db x, Some ''assigned'', Some ''completed'', Some ''cancelled''})
   \<and> (\<forall>x. proxy_status_of (apply_op db op) x = proxy_status_of db x
           \<or> proxy_status_of (apply_op db op) x = Some (written_status op))
   \<and> (\<forall>x. proxy_status_of db x = None \<longrightarrow>
           proxy_status_of (apply_op db op) x \<in> {None, Some ''assigned''})
   \<and> (\<forall>p \<in> set (proxies db).
         proxy_status_of (apply_op db (Cancel (proxy_id p))) (proxy_id p) = Some ''cancelled'')
   \<and> (\<forall>p \<in> set (proxies db).
         list_ex (\<lambda>c. classroom_id c = proxy_classroom p \<and> classroom_school c = school)
           (school_classrooms db) \<longrightarrow>
         proxy_status_of (apply_op db (Complete (proxy_id p) school now)) (proxy_id p)
           = Some ''completed'')
   \<and> (\<forall>p. objects_get (\<lambda>p. proxy_absence p = absence_id ab
                             \<and> proxy_classroom p = classroom_id room
                             \<and> proxy_day p = day_name (absence_date ab)
                             \<and> proxy_period p = per) (proxies db) = Inr p \<longrightarrow>
         proxy_status_of (apply_op db (Assign ab per room sub user subj)) (proxy_id p)
           = Some ''assigned'')"
    using run_ops_wf [OF wf, of ops] run_ops_status [OF wf, of ops]
      apply_op_status [OF wf, of op] apply_op_created [OF wf, of _ op]
      cancel complete assign
    by blast
  note rows = cancel_proxy_rows [OF wf, of pid]
    complete_proxy_rows [OF wf, of pid school now]
    assign_proxy_rows [OF wf, of ab per room sub user subj]
  show ?thesis
    apply (insert statuses rows)
    apply (elim conjE)
    apply (intro conjI)
    apply assumption+
    done
qed

text \<open>
  In the example school, after the assignment has created the proxy of id 2 in status
  \<open>assigned\<close> behind the proxy of id 1, cancelling the proxy of id 1 changes the status of
  that row only, and cancelling an id that does not exist changes nothing.
\<close>

theorem proxy_status_written_unconditionally_witness:
  "proxies_wf (apply_op scenario_timetable scenario_assign)
   \<and> map (\<lambda>p. (proxy_id p, proxy_status p))
        (proxies (apply_op scenario_timetable scenario_assign))
       = [(1, ''assigned''), (2, ''assigned'')]
   \<and> apply_op (apply_op scenario_timetable scenario_assign) (Cancel 1) =
       (apply_op scenario_timetable scenario_assign)
         \<lparr>proxies := map (\<lambda>q. if proxy_id q = 1
                                 then q\<lparr>proxy_status := ''cancelled''\<rparr> else q)
                         (proxies (apply_op scenario_timetable scenario_assign))\<rparr>
   \<and> map (\<lambda>p. (proxy_id p, proxy_status p))
        (proxies (apply_op (apply_op scenario_timetable scenario_assign) (Cancel 1)))
       = [(1, ''cancelled''), (2, ''assigned'')]
   \<and> proxies_wf (run_ops (apply_op scenario_timetable scenario_assign)
                   [Complete 2 1 100, Cancel 2])
   \<and> proxy_status_of (apply_op scenario_timetable scenario_assign) 3 = None
   \<and> proxy_status_of (apply_op (apply_op scenario_timetable scenario_assign) (Cancel 3)) 3
       = None"
proof -
  let ?db = "apply_op scenario_timetable scenario_assign"
  have wf: "proxies_wf ?db"
    by code_simp
  have a: "map (\<lambda>p. (proxy_id p, proxy_status p)) (proxies ?db)
             = [(1, ''assigned''), (2, ''assigned'')]"
    by code_simp
  have b: "map (\<lambda>p. (proxy_id p, proxy_status p)) (proxies (apply_op ?db (Cancel 1)))
             = [(1, ''cancelled''), (2, ''assigned'')]"
    by code_simp
  have c: "proxy_status_of ?db 3 = None"
    by code_simp
  have d: "proxy_status_of (apply_op ?db (Cancel 3)) 3 = None"
    by code_simp
  show ?thesis
    using proxy_status_written_unconditionally [OF wf,
        where ops = "[Complete 2 1 100, Cancel 2]" and pid = 1] wf a b c d
    by (simp del: apply_op.simps)
qed

end
